theory Spec2Isabelle
  imports Complex_Main "HOL-Library.AList" "HOL-Library.Sublist"
begin

section \<open>Python values, dictionaries and strings\<close>

text \<open>
  The two scripts, \<^verbatim>\<open>hardware_detector.py\<close> and \<^verbatim>\<open>supabase_uploader.py\<close>, work on
  dictionaries from string keys to dynamically typed values. A value is one of Python's
  \<^verbatim>\<open>None\<close>, \<^verbatim>\<open>bool\<close>, \<^verbatim>\<open>int\<close>, \<^verbatim>\<open>float\<close>,
  \<^verbatim>\<open>str\<close>, \<^verbatim>\<open>list\<close> and \<^verbatim>\<open>dict\<close>. A dictionary is an
  association list with distinct keys in insertion order, as Python keeps it.

  A \<^verbatim>\<open>float\<close> is an IEEE 754 double: a finite double is the rational number it
  denotes, next to the two infinities and the NaN. An operation on floats computes the exact
  result and rounds it to the nearest double (see \<open>round_double\<close> below); the sign of a
  zero is not kept. Strings are byte strings; case folding and whitespace are ASCII's.
  Output printed to the console is not modelled.
\<close>

datatype double = Fin rat | PosInf | NegInf | NaN

datatype pyval =
    PNone
  | PBool bool
  | PInt int
  | PFloat double
  | PStr string
  | PList "pyval list"
  | PDict "(string \<times> pyval) list"

type_synonym bag = "(string \<times> pyval) list"

text \<open>Truth value testing (\<^verbatim>\<open>if v\<close>, \<^verbatim>\<open>a or b\<close>).\<close>

fun truthy :: "pyval \<Rightarrow> bool" where
  "truthy PNone = False"
| "truthy (PBool b) = b"
| "truthy (PInt i) = (i \<noteq> 0)"
| "truthy (PFloat x) = (x \<noteq> Fin 0)"
| "truthy (PStr s) = (s \<noteq> [])"
| "truthy (PList xs) = (xs \<noteq> [])"
| "truthy (PDict kvs) = (kvs \<noteq> [])"

text \<open>\<^verbatim>\<open>d.get(k, dflt)\<close>, \<^verbatim>\<open>d.get(k)\<close>, \<^verbatim>\<open>k in d\<close> and \<^verbatim>\<open>d[k] = v\<close>.\<close>

definition get_or :: "bag \<Rightarrow> string \<Rightarrow> pyval \<Rightarrow> pyval" where
  "get_or d k dflt = (case map_of d k of Some v \<Rightarrow> v | None \<Rightarrow> dflt)"

definition get :: "bag \<Rightarrow> string \<Rightarrow> pyval" where
  "get d k = get_or d k PNone"

definition has_key :: "bag \<Rightarrow> string \<Rightarrow> bool" where
  "has_key d k = (map_of d k \<noteq> None)"

definition keys :: "bag \<Rightarrow> string set" where
  "keys d = fst ` set d"

definition set_item :: "string \<Rightarrow> pyval \<Rightarrow> bag \<Rightarrow> bag" where
  "set_item k v d = AList.update k v d"

subsection \<open>String operations\<close>

definition ascii_lower :: "char \<Rightarrow> char" where
  "ascii_lower c =
     (case map_of (zip ''ABCDEFGHIJKLMNOPQRSTUVWXYZ'' ''abcdefghijklmnopqrstuvwxyz'') c of
        Some d \<Rightarrow> d
      | None \<Rightarrow> c)"

definition lower :: "string \<Rightarrow> string" where
  "lower s = map ascii_lower s"

definition newline :: char where
  "newline = CHR 0x0A"

definition is_space :: "char \<Rightarrow> bool" where
  "is_space c = (c \<in> set [CHR '' '', CHR 0x09, CHR 0x0A, CHR 0x0B, CHR 0x0C, CHR 0x0D,
                           CHR 0x1C, CHR 0x1D, CHR 0x1E, CHR 0x1F])"

definition strip :: "string \<Rightarrow> string" where
  "strip s = rev (dropWhile is_space (rev (dropWhile is_space s)))"

text \<open>\<^verbatim>\<open>sub in s\<close> on strings: \<^verbatim>\<open>sub\<close> occurs in \<^verbatim>\<open>s\<close> as a contiguous block.\<close>

fun contains :: "string \<Rightarrow> string \<Rightarrow> bool" where
  "contains sub [] = (sub = [])"
| "contains sub (c # cs) = (prefix sub (c # cs) \<or> contains sub cs)"

text \<open>
  \<^verbatim>\<open>s.split(sep)\<close> for a non-empty separator: the pieces between the non-overlapping
  occurrences of \<^verbatim>\<open>sep\<close>, found from the left. The counter is the number of characters
  of a separator still to skip.
\<close>

fun split_aux :: "string \<Rightarrow> nat \<Rightarrow> string \<Rightarrow> string \<Rightarrow> string list" where
  "split_aux sep k acc [] = [rev acc]"
| "split_aux sep k acc (c # cs) =
     (if 0 < k then split_aux sep (k - 1) acc cs
      else if prefix sep (c # cs) then rev acc # split_aux sep (length sep - 1) [] cs
      else split_aux sep 0 (c # acc) cs)"

definition split_sep :: "string \<Rightarrow> string \<Rightarrow> string list" where
  "split_sep sep s = split_aux sep 0 [] s"

definition split_lines :: "string \<Rightarrow> string list" where
  "split_lines s = split_sep [newline] s"

text \<open>\<^verbatim>\<open>s.split()\<close>: the maximal runs of characters that are not whitespace.\<close>

fun split_ws_aux :: "string \<Rightarrow> string \<Rightarrow> string list" where
  "split_ws_aux acc [] = (if acc = [] then [] else [rev acc])"
| "split_ws_aux acc (c # cs) =
     (if is_space c then (if acc = [] then split_ws_aux [] cs else rev acc # split_ws_aux [] cs)
      else split_ws_aux (c # acc) cs)"

definition split_ws :: "string \<Rightarrow> string list" where
  "split_ws s = split_ws_aux [] s"

fun join :: "string \<Rightarrow> string list \<Rightarrow> string" where
  "join sep [] = []"
| "join sep [x] = x"
| "join sep (x # y # ys) = x @ sep @ join sep (y # ys)"

definition replace :: "string \<Rightarrow> string \<Rightarrow> string \<Rightarrow> string" where
  "replace old new s = join new (split_sep old s)"

subsection \<open>Numbers from and to text\<close>

definition is_digit :: "char \<Rightarrow> bool" where
  "is_digit c = (c \<in> set ''0123456789'')"

definition digit_val :: "char \<Rightarrow> int" where
  "digit_val c =
     (case map_of (zip ''0123456789'' [0, 1, 2, 3, 4, 5, 6, 7, 8, 9]) c of
        Some n \<Rightarrow> n
      | None \<Rightarrow> 0)"

definition int_of_digits :: "string \<Rightarrow> int" where
  "int_of_digits s = foldl (\<lambda>a c. 10 * a + digit_val c) 0 s"

text \<open>An optional sign in front of a numeric literal.\<close>

definition take_sign :: "string \<Rightarrow> bool \<times> string" where
  "take_sign s =
     (case s of
        [] \<Rightarrow> (False, [])
      | c # cs \<Rightarrow> if c = CHR ''-'' then (True, cs) else if c = CHR ''+'' then (False, cs) else (False, s))"

text \<open>
  Digits grouped by single underscores, as \<^verbatim>\<open>int\<close> accepts them: the text starts and
  ends with a digit and no two underscores are adjacent.
\<close>

fun grouped_digits :: "string \<Rightarrow> bool" where
  "grouped_digits [] = False"
| "grouped_digits [c] = is_digit c"
| "grouped_digits (c # d # cs) =
     (is_digit c \<and> (if d = CHR ''_'' then cs \<noteq> [] \<and> grouped_digits cs else grouped_digits (d # cs)))"

text \<open>\<^verbatim>\<open>int(s)\<close> on a string; \<^verbatim>\<open>None\<close> stands for the ValueError.\<close>

definition int_of_str :: "string \<Rightarrow> int option" where
  "int_of_str s =
     (let (neg, body) = take_sign (strip s) in
      if grouped_digits body
      then (let n = int_of_digits (filter (\<lambda>c. c \<noteq> CHR ''_'') body) in Some (if neg then - n else n))
      else None)"

text \<open>Plain decimal literals: digits with at most one point and at least one digit, and the
  exact number one denotes.\<close>

definition decimal_body :: "string \<Rightarrow> bool" where
  "decimal_body s =
     ((\<forall>c \<in> set s. is_digit c \<or> c = CHR ''.'') \<and> (\<exists>c \<in> set s. is_digit c)
      \<and> length (filter (\<lambda>c. c = CHR ''.'') s) \<le> 1)"

definition decimal_value :: "string \<Rightarrow> rat" where
  "decimal_value s =
     (let whole = takeWhile (\<lambda>c. c \<noteq> CHR ''.'') s;
          frac = drop 1 (dropWhile (\<lambda>c. c \<noteq> CHR ''.'') s)
      in of_int (int_of_digits whole) + of_int (int_of_digits frac) / 10 ^ length frac)"

text \<open>Rounding an exact number to an integer: halves go to the even neighbour.\<close>

definition py_round :: "rat \<Rightarrow> int" where
  "py_round q =
     (let f = \<lfloor>q\<rfloor>; d = q - of_int f in
      if d < 1 / 2 then f else if 1 / 2 < d then f + 1 else if even f then f else f + 1)"

definition digit_char :: "int \<Rightarrow> char" where
  "digit_char d =
     (case map_of (zip [0, 1, 2, 3, 4, 5, 6, 7, 8, 9] ''0123456789'') d of
        Some c \<Rightarrow> c
      | None \<Rightarrow> CHR ''0'')"

function digits_of :: "int \<Rightarrow> string" where
  "digits_of n = (if n < 10 then [digit_char n] else digits_of (n div 10) @ [digit_char (n mod 10)])"
  by pat_completeness auto
termination
  by (relation "measure nat") auto

definition str_of_int :: "int \<Rightarrow> string" where
  "str_of_int i = (if i < 0 then CHR ''-'' # digits_of (- i) else digits_of i)"

section \<open>The machine, the operator and the libraries\<close>

text \<open>
  The detector reads the machine through external commands and regular expressions. Both
  are parameters of the model. A regular expression is named by a constructor of
  \<open>pattern\<close>; what \<^verbatim>\<open>re.search\<close> and \<^verbatim>\<open>re.findall\<close> return for it on a text is
  given by the \<open>lib\<close> record: \<open>search1\<close> for a pattern with one group (the text of group
  1 of the first match), \<open>search2\<close> for a pattern with two groups, \<open>findall\<close> for every
  match. The patterns, as the source writes them:

  \<^item> \<open>Re_Manufacturer\<close>: \<^verbatim>\<open>Manufacturer:\s*(.+)\<close>
  \<^item> \<open>Re_Product_Name\<close>: \<^verbatim>\<open>Product Name:\s*(.+)\<close>
  \<^item> \<open>Re_Serial_Number\<close>: \<^verbatim>\<open>Serial Number:\s*(.+)\<close>
  \<^item> \<open>Re_UUID\<close>: \<^verbatim>\<open>UUID:\s*(.+)\<close>
  \<^item> \<open>Re_SKU_Number\<close>: \<^verbatim>\<open>SKU Number:\s*(.+)\<close>
  \<^item> \<open>Re_Family\<close>: \<^verbatim>\<open>Family:\s*(.+)\<close>
  \<^item> \<open>Re_Model_name\<close>: \<^verbatim>\<open>Model name:\s*(.+)\<close>
  \<^item> \<open>Re_Cores_per_socket\<close>: \<^verbatim>\<open>Core\(s\) per socket:\s*(\d+)\<close>
  \<^item> \<open>Re_Sockets\<close>: \<^verbatim>\<open>Socket\(s\):\s*(\d+)\<close>
  \<^item> \<open>Re_CPU_MHz\<close>: \<^verbatim>\<open>CPU MHz:\s*([\d.]+)\<close>
  \<^item> \<open>Re_CPU_max_MHz\<close>: \<^verbatim>\<open>CPU max MHz:\s*([\d.]+)\<close>
  \<^item> \<open>Re_L3_cache\<close>: \<^verbatim>\<open>L3 cache:\s*(\d+(?:\.\d+)?)\s*([KMG]iB)\<close>
  \<^item> \<open>Re_Size_GB\<close>: \<^verbatim>\<open>Size:\s*(\d+)\s*GB\<close>
  \<^item> \<open>Re_MemTotal\<close>: \<^verbatim>\<open>MemTotal:\s*(\d+)\s*kB\<close>
  \<^item> \<open>Re_Type_DDR\<close>: \<^verbatim>\<open>Type:\s*(DDR\d+)\<close>
  \<^item> \<open>Re_Speed_MTs\<close>: \<^verbatim>\<open>Speed:\s*(\d+)\s*MT/s\<close>
  \<^item> \<open>Re_Maximum_Capacity\<close>: \<^verbatim>\<open>Maximum Capacity:\s*(\d+)\s*(GB|MB)\<close>
  \<^item> \<open>Re_Number_Of_Devices\<close>: \<^verbatim>\<open>Number Of Devices:\s*(\d+)\<close>
  \<^item> \<open>Re_Form_Factor\<close>: \<^verbatim>\<open>Form Factor:\s*(.+)\<close>
  \<^item> \<open>Re_Size_No_Module\<close>: \<^verbatim>\<open>Size:\s*No Module Installed\<close>
  \<^item> \<open>Re_Resolution\<close>: \<^verbatim>\<open>(\d+)x(\d+).*?\*\<close>
  \<^item> \<open>Re_Size_mm\<close>: \<^verbatim>\<open>(\d+)mm x (\d+)mm\<close>
  \<^item> \<open>Re_Maximum_image_size\<close>: \<^verbatim>\<open>Maximum image size:\s*(\d+)\s*cm x\s*(\d+)\s*cm\<close>
  \<^item> \<open>Re_Controller\<close>: \<^verbatim>\<open>(?:VGA compatible controller|3D controller):\s*(.+?)(?:\s*\(rev.*\))?$\<close>
  \<^item> \<open>Re_voltage\<close>: \<^verbatim>\<open>voltage:\s*([\d.]+)\s*V\<close>
  \<^item> \<open>Re_energy_full\<close>: \<^verbatim>\<open>energy-full:\s*([\d.]+)\<close>
  \<^item> \<open>Re_CHARGE_FULL\<close>: \<^verbatim>\<open>POWER_SUPPLY_CHARGE_FULL=(\d+)\<close>

  Two patterns are simple enough to be matched here and are not parameters: the bracket
  pattern \<^verbatim>\<open>\[(.+?)\]\<close> (\<open>bracket_search\<close>) and the size pattern
  \<^verbatim>\<open>([\d.]+)([KMGT])\<close> (\<open>size_match\<close>).
\<close>

datatype pattern =
    Re_Manufacturer | Re_Product_Name | Re_Serial_Number | Re_UUID | Re_SKU_Number | Re_Family
  | Re_Model_name | Re_Cores_per_socket | Re_Sockets | Re_CPU_MHz | Re_CPU_max_MHz | Re_L3_cache
  | Re_Size_GB | Re_MemTotal | Re_Type_DDR | Re_Speed_MTs | Re_Maximum_Capacity
  | Re_Number_Of_Devices | Re_Form_Factor | Re_Size_No_Module
  | Re_Resolution | Re_Size_mm | Re_Maximum_image_size
  | Re_Controller
  | Re_voltage | Re_energy_full | Re_CHARGE_FULL

record lib =
  search1 :: "pattern \<Rightarrow> string \<Rightarrow> string option"
  search2 :: "pattern \<Rightarrow> string \<Rightarrow> (string \<times> string) option"
  findall :: "pattern \<Rightarrow> string \<Rightarrow> string list"
  float_other :: "string \<Rightarrow> double option"
  sqrt_float :: "int \<Rightarrow> double option"
  str_other :: "pyval \<Rightarrow> string"

text \<open>
  The machine answers a command line with its standard output; \<open>None\<close> is a
  \<^verbatim>\<open>subprocess.run\<close> that raises (a missing program, a timeout). The operator's answers
  at the console are consumed in order.
\<close>

text \<open>The exceptions of the two scripts.\<close>

datatype error =
    ValueError | TypeError | KeyError | IndexError | AttributeError | ZeroDivisionError | EOFError
  | OverflowError | RecursionError
  | SubprocessError | OSError | FileNotFoundError | UnicodeDecodeError | JSONDecodeError | ImportError
  | ClientError | APIError

text \<open>
  What \<^verbatim>\<open>load_secrets\<close> finds at a path. \<open>Missing\<close>: \<^verbatim>\<open>Path.exists()\<close> is
  false. \<open>Unreadable e\<close>: the path exists and \<^verbatim>\<open>open\<close> or \<^verbatim>\<open>json.load\<close> raises
  the exception \<open>e\<close>: an OSError for a directory or a file without read permission,
  UnicodeDecodeError for bytes that are not text, \<^verbatim>\<open>json.JSONDecodeError\<close> for text
  that is not JSON, the plain ValueError of an integer literal with too many digits,
  RecursionError for too deep a nesting. \<open>Parsed v\<close>: \<^verbatim>\<open>json.load\<close> returns \<open>v\<close>.
\<close>

datatype secrets_file = Missing | Unreadable error | Parsed pyval

record env =
  shell :: "string \<Rightarrow> string option"
  console :: "string list"
  clock :: string
  secrets_files :: "string \<Rightarrow> secrets_file"
  supabase_installed :: bool

subsection \<open>Double precision\<close>

text \<open>
  The double nearest to an exact number. A finite double other than zero is
  \<open>m * 2 ^ u\<close> with an integer \<open>m\<close> of at most 53 bits and \<open>u\<close> at least \<open>-1074\<close>. The
  exact number is rounded to the nearest such value, a tie to the even \<open>m\<close>; below
  \<open>2 ^ -1022\<close> the spacing stays \<open>2 ^ -1074\<close> (gradual underflow), and a result of
  \<open>2 ^ 1024\<close> or more is an infinity.
\<close>

function bit_length :: "int \<Rightarrow> int" where
  "bit_length n = (if n \<le> 0 then 0 else 1 + bit_length (n div 2))"
  by pat_completeness auto
termination
  by (relation "measure nat") auto

definition pow2 :: "int \<Rightarrow> rat" where
  "pow2 k = (if 0 \<le> k then 2 ^ nat k else 1 / 2 ^ nat (- k))"

text \<open>The exponent \<open>e\<close> with \<open>2 ^ e \<le> q < 2 ^ (e + 1)\<close>, for a positive \<open>q\<close>.\<close>

definition floor_log2 :: "rat \<Rightarrow> int" where
  "floor_log2 q =
     (let (n, d) = quotient_of q; k = bit_length n - bit_length d in
      if pow2 k \<le> q then k else k - 1)"

definition round_double :: "rat \<Rightarrow> double" where
  "round_double q =
     (if q = 0 then Fin 0
      else (let a = \<bar>q\<bar>;
                e = floor_log2 a;
                u = pow2 (max (e - 52) (- 1074));
                r = of_int (py_round (a / u)) * u
            in if 1023 \<le> e
               then (if pow2 1024 \<le> r then (if 0 < q then PosInf else NegInf)
                     else Fin (if 0 < q then r else - r))
               else Fin (if 0 < q then r else - r)))"

text \<open>\<^verbatim>\<open>x + y\<close>, \<^verbatim>\<open>x * y\<close>, \<^verbatim>\<open>x / y\<close> and \<^verbatim>\<open>x < y\<close> on floats. Python raises
  ZeroDivisionError on a division by zero, here \<open>None\<close>.\<close>

fun is_neg :: "double \<Rightarrow> bool" where
  "is_neg (Fin a) = (a < 0)"
| "is_neg NegInf = True"
| "is_neg x = False"

fun fadd :: "double \<Rightarrow> double \<Rightarrow> double" where
  "fadd (Fin a) (Fin b) = round_double (a + b)"
| "fadd NaN y = NaN"
| "fadd x NaN = NaN"
| "fadd PosInf NegInf = NaN"
| "fadd NegInf PosInf = NaN"
| "fadd PosInf y = PosInf"
| "fadd NegInf y = NegInf"
| "fadd x PosInf = PosInf"
| "fadd x NegInf = NegInf"

definition fmul :: "double \<Rightarrow> double \<Rightarrow> double" where
  "fmul x y =
     (case (x, y) of
        (Fin a, Fin b) \<Rightarrow> round_double (a * b)
      | _ \<Rightarrow> if x = NaN \<or> y = NaN \<or> x = Fin 0 \<or> y = Fin 0 then NaN
             else if is_neg x = is_neg y then PosInf else NegInf)"

definition fdiv :: "double \<Rightarrow> double \<Rightarrow> double option" where
  "fdiv x y =
     (if y = Fin 0 then None
      else Some (case (x, y) of
                   (Fin a, Fin b) \<Rightarrow> round_double (a / b)
                 | (Fin a, _) \<Rightarrow> if y = NaN then NaN else Fin 0
                 | (_, Fin b) \<Rightarrow> if x = NaN then NaN else if is_neg x = is_neg y then PosInf else NegInf
                 | _ \<Rightarrow> NaN))"

fun flt :: "double \<Rightarrow> double \<Rightarrow> bool" where
  "flt (Fin a) (Fin b) = (a < b)"
| "flt NaN y = False"
| "flt x NaN = False"
| "flt PosInf y = False"
| "flt x NegInf = False"
| "flt x y = True"

text \<open>
  \<^verbatim>\<open>float(s)\<close> on a string. Plain decimal literals, after stripping and an optional sign,
  are read here, correctly rounded; what Python makes of any other text (exponents,
  underscores, \<^verbatim>\<open>inf\<close>, \<^verbatim>\<open>nan\<close>) is the parameter \<open>other\<close>. \<^verbatim>\<open>None\<close> stands for
  the ValueError.
\<close>

definition float_of_str :: "(string \<Rightarrow> double option) \<Rightarrow> string \<Rightarrow> double option" where
  "float_of_str other s =
     (let (neg, body) = take_sign (strip s) in
      if decimal_body body
      then Some (round_double (if neg then - decimal_value body else decimal_value body))
      else other s)"

text \<open>\<^verbatim>\<open>a / b\<close> on two integers: the quotient, correctly rounded.\<close>

definition int_true_div :: "int \<Rightarrow> int \<Rightarrow> error + double" where
  "int_true_div a b =
     (if b = 0 then Inl ZeroDivisionError
      else (case round_double (of_int a / of_int b) of
              Fin q \<Rightarrow> Inr (Fin q)
            | _ \<Rightarrow> Inl OverflowError))"

text \<open>\<^verbatim>\<open>round(x)\<close> and \<^verbatim>\<open>int(x)\<close> on a float raise OverflowError on an infinity and
  ValueError on the NaN. \<^verbatim>\<open>round(x, n)\<close> rounds the exact value of \<^verbatim>\<open>x\<close> to \<^verbatim>\<open>n\<close>
  decimals, halves to the even neighbour, and returns the double nearest to that.\<close>

fun round_int :: "double \<Rightarrow> error + int" where
  "round_int (Fin q) = Inr (py_round q)"
| "round_int NaN = Inl ValueError"
| "round_int x = Inl OverflowError"

fun int_of_double :: "double \<Rightarrow> error + int" where
  "int_of_double (Fin q) = Inr (if 0 \<le> q then \<lfloor>q\<rfloor> else \<lceil>q\<rceil>)"
| "int_of_double NaN = Inl ValueError"
| "int_of_double x = Inl OverflowError"

fun round_digits :: "nat \<Rightarrow> double \<Rightarrow> double" where
  "round_digits n (Fin q) = round_double (of_int (py_round (q * 10 ^ n)) / 10 ^ n)"
| "round_digits n x = x"

text \<open>\<^verbatim>\<open>run_command\<close> and \<^verbatim>\<open>run_command_with_sudo\<close> catch every exception and return the empty string.\<close>

definition run_command :: "env \<Rightarrow> string \<Rightarrow> string" where
  "run_command E cmd = (case shell E cmd of Some out \<Rightarrow> out | None \<Rightarrow> [])"

definition run_command_with_sudo :: "env \<Rightarrow> string \<Rightarrow> string" where
  "run_command_with_sudo E cmd = (case shell E (''sudo '' @ cmd) of Some out \<Rightarrow> out | None \<Rightarrow> [])"

text \<open>The bracket pattern: the first \<^verbatim>\<open>[\<close> that is followed, on the same line, by at
  least one character and then a \<^verbatim>\<open>]\<close>; the group is the shortest such text.\<close>

fun bracket_close :: "string \<Rightarrow> string \<Rightarrow> string option" where
  "bracket_close acc [] = None"
| "bracket_close acc (c # cs) =
     (if c = CHR '']'' then Some (rev acc)
      else if c = newline then None
      else bracket_close (c # acc) cs)"

fun bracket_search :: "string \<Rightarrow> string option" where
  "bracket_search [] = None"
| "bracket_search (c # cs) =
     (if c = CHR ''[''
      then (case cs of
              [] \<Rightarrow> None
            | d # ds \<Rightarrow>
                (if d = newline then bracket_search cs
                 else (case bracket_close [d] ds of Some g \<Rightarrow> Some g | None \<Rightarrow> bracket_search cs)))
      else bracket_search cs)"

text \<open>The size pattern, anchored at the start by \<^verbatim>\<open>re.match\<close>: a non-empty run of digits
  and points, then one of K, M, G, T.\<close>

definition size_match :: "string \<Rightarrow> (string \<times> char) option" where
  "size_match s =
     (let num = takeWhile (\<lambda>c. is_digit c \<or> c = CHR ''.'') s;
          rest = dropWhile (\<lambda>c. is_digit c \<or> c = CHR ''.'') s
      in case rest of
           [] \<Rightarrow> None
         | u # _ \<Rightarrow> if num \<noteq> [] \<and> u \<in> set ''KMGT'' then Some (num, u) else None)"

section \<open>State of a probe: the raw bag and a pending exception\<close>

text \<open>
  A method of \<^verbatim>\<open>HardwareDetector\<close> mutates \<^verbatim>\<open>self.raw_data\<close> and may raise. Its
  model is a function on the pair of the bag and the pending exception. Every primitive
  does nothing once an exception is pending, so a sequence of statements stops at the
  first raise and keeps what was written before it, as the mutated dictionary does.
\<close>

type_synonym st = "bag \<times> error option"

definition put :: "string \<Rightarrow> pyval \<Rightarrow> st \<Rightarrow> st" where
  "put k v s = (case snd s of None \<Rightarrow> (set_item k v (fst s), None) | Some e \<Rightarrow> s)"

definition raise :: "error \<Rightarrow> st \<Rightarrow> st" where
  "raise e s = (case snd s of None \<Rightarrow> (fst s, Some e) | Some e' \<Rightarrow> s)"

definition skip :: "st \<Rightarrow> st" where
  "skip s = s"

definition seq :: "(st \<Rightarrow> st) list \<Rightarrow> st \<Rightarrow> st" where
  "seq fs s = fold (\<lambda>f t. f t) fs s"

definition on_match :: "'a option \<Rightarrow> ('a \<Rightarrow> st \<Rightarrow> st) \<Rightarrow> st \<Rightarrow> st" where
  "on_match m f s = (case m of None \<Rightarrow> s | Some g \<Rightarrow> f g s)"

definition reading :: "(bag \<Rightarrow> st \<Rightarrow> st) \<Rightarrow> st \<Rightarrow> st" where
  "reading f s = f (fst s) s"

definition try_except :: "(st \<Rightarrow> st) \<Rightarrow> (st \<Rightarrow> st) \<Rightarrow> st \<Rightarrow> st" where
  "try_except body handler s =
     (case snd s of
        Some e \<Rightarrow> s
      | None \<Rightarrow> (let s' = body s in case snd s' of None \<Rightarrow> s' | Some e \<Rightarrow> handler (fst s', None)))"

definition with_float :: "lib \<Rightarrow> string \<Rightarrow> (double \<Rightarrow> st \<Rightarrow> st) \<Rightarrow> st \<Rightarrow> st" where
  "with_float L g f = (case float_of_str (float_other L) g of None \<Rightarrow> raise ValueError | Some q \<Rightarrow> f q)"

definition with_int :: "string \<Rightarrow> (int \<Rightarrow> st \<Rightarrow> st) \<Rightarrow> st \<Rightarrow> st" where
  "with_int g f = (case int_of_str g of None \<Rightarrow> raise ValueError | Some n \<Rightarrow> f n)"

definition with_output :: "env \<Rightarrow> string \<Rightarrow> (string \<Rightarrow> st \<Rightarrow> st) \<Rightarrow> st \<Rightarrow> st" where
  "with_output E cmd f = (case shell E cmd of None \<Rightarrow> raise SubprocessError | Some out \<Rightarrow> f out)"

section \<open>The detector\<close>

subsection \<open>System identity and processor\<close>

definition detect_system_info :: "lib \<Rightarrow> env \<Rightarrow> st \<Rightarrow> st" where
  "detect_system_info L E =
     (let dmidecode_system = run_command_with_sudo E ''dmidecode -t system'';
          dmidecode_bios = run_command_with_sudo E ''dmidecode -t bios'';
          dmidecode_chassis = run_command_with_sudo E ''dmidecode -t chassis''
      in seq
        [put ''dmidecode_system'' (PStr dmidecode_system),
         put ''dmidecode_bios'' (PStr dmidecode_bios),
         put ''dmidecode_chassis'' (PStr dmidecode_chassis),
         on_match (search1 L Re_Manufacturer dmidecode_system) (\<lambda>g. put ''brand'' (PStr (strip g))),
         on_match (search1 L Re_Product_Name dmidecode_system) (\<lambda>g. put ''model'' (PStr (strip g))),
         on_match (search1 L Re_Serial_Number dmidecode_system) (\<lambda>g. put ''serial'' (PStr (strip g))),
         on_match (search1 L Re_UUID dmidecode_system) (\<lambda>g. put ''uuid'' (PStr (strip g))),
         on_match (search1 L Re_SKU_Number dmidecode_system) (\<lambda>g. put ''sku'' (PStr (strip g))),
         on_match (search1 L Re_Family dmidecode_system) (\<lambda>g. put ''family'' (PStr (strip g)))])"

definition detect_processor :: "lib \<Rightarrow> env \<Rightarrow> st \<Rightarrow> st" where
  "detect_processor L E =
     (let lscpu_output = run_command E ''lscpu'' in
      seq
        [put ''lscpu'' (PStr lscpu_output),
         on_match (search1 L Re_Model_name lscpu_output) (\<lambda>g. put ''cpu_model'' (PStr (strip g))),
         on_match (search1 L Re_Cores_per_socket lscpu_output) (\<lambda>c.
           on_match (search1 L Re_Sockets lscpu_output) (\<lambda>k.
             with_int c (\<lambda>cores. with_int k (\<lambda>sockets. put ''cpu_cores'' (PInt (cores * sockets)))))),
         on_match (search1 L Re_CPU_MHz lscpu_output) (\<lambda>g.
           with_float L g (\<lambda>mhz.
             seq [put ''cpu_speed_mhz'' (PFloat mhz),
                  (case fdiv mhz (Fin 1000) of
                     None \<Rightarrow> raise ZeroDivisionError
                   | Some ghz \<Rightarrow> put ''cpu_speed_ghz'' (PFloat (round_digits 2 ghz)))])),
         on_match (search1 L Re_CPU_max_MHz lscpu_output) (\<lambda>g.
           with_float L g (\<lambda>mhz.
             seq [put ''cpu_max_mhz'' (PFloat mhz),
                  (case fdiv mhz (Fin 1000) of
                     None \<Rightarrow> raise ZeroDivisionError
                   | Some ghz \<Rightarrow> put ''cpu_max_ghz'' (PFloat (round_digits 2 ghz)))])),
         on_match (search2 L Re_L3_cache lscpu_output) (\<lambda>(size_txt, unit).
           put ''cpu_l3_cache'' (PStr (size_txt @ '' '' @ replace ''iB'' ''B'' unit @ '' L3''))),
         put ''dmidecode_processor'' (PStr (run_command_with_sudo E ''dmidecode -t processor''))])"

subsection \<open>Memory\<close>

text \<open>The sizes of the installed modules; \<open>None\<close> stands for a ValueError of \<^verbatim>\<open>int\<close>.\<close>

fun installed_ram_sizes :: "lib \<Rightarrow> string list \<Rightarrow> int list option" where
  "installed_ram_sizes L [] = Some []"
| "installed_ram_sizes L (section # rest) =
     (if contains ''Memory Device'' section \<and> \<not> contains ''No Module Installed'' section
      then (case search1 L Re_Size_GB section of
              None \<Rightarrow> installed_ram_sizes L rest
            | Some g \<Rightarrow>
                (case int_of_str g of
                   None \<Rightarrow> None
                 | Some n \<Rightarrow> map_option (\<lambda>ns. n # ns) (installed_ram_sizes L rest)))
      else installed_ram_sizes L rest)"

definition physical_ram_gb :: "int list \<Rightarrow> int option" where
  "physical_ram_gb sizes = (if sizes \<noteq> [] then Some (sum_list sizes) else None)"

definition standard_sizes :: "int list" where
  "standard_sizes = [2, 4, 6, 8, 12, 16, 24, 32, 48, 64, 96, 128, 192, 256]"

text \<open>\<^verbatim>\<open>min(xs, key=f)\<close>: the first element whose key is least; \<open>None\<close> on the empty list.\<close>

fun min_from :: "('a \<Rightarrow> rat) \<Rightarrow> 'a \<Rightarrow> 'a list \<Rightarrow> 'a" where
  "min_from f best [] = best"
| "min_from f best (x # xs) = (if f x < f best then min_from f x xs else min_from f best xs)"

definition min_by :: "('a \<Rightarrow> rat) \<Rightarrow> 'a list \<Rightarrow> 'a option" where
  "min_by f xs = (case xs of [] \<Rightarrow> None | x # rest \<Rightarrow> Some (min_from f x rest))"

definition closest_size :: "rat \<Rightarrow> int option" where
  "closest_size mem_gb_raw = min_by (\<lambda>x. \<bar>of_int x - mem_gb_raw\<bar>) standard_sizes"

text \<open>The branch on \<^verbatim>\<open>if physical_ram_gb:\<close> with the memory total in kB at hand. The
  quotient \<^verbatim>\<open>mem_kb / (1024 * 1024)\<close> and its distances to the standard sizes are written
  as exact numbers: for a total below \<open>2 ^ 53\<close> kB they are doubles, so that no operation
  rounds.\<close>

definition ram_size_step :: "int option \<Rightarrow> int \<Rightarrow> st \<Rightarrow> st" where
  "ram_size_step physical mem_kb =
     (let mem_gb_raw = of_int mem_kb / (1024 * 1024);
          snap = (case closest_size mem_gb_raw of
                    None \<Rightarrow> raise ValueError
                  | Some closest \<Rightarrow> put ''ram_size_gb'' (PInt closest))
      in case physical of
           Some p \<Rightarrow> if p \<noteq> 0 then put ''ram_size_gb'' (PInt p) else snap
         | None \<Rightarrow> snap)"

text \<open>\<^verbatim>\<open>v > 0\<close> and \<^verbatim>\<open>v - n\<close> for a value read back from the bag; \<open>None\<close> is a TypeError.\<close>

fun gt_zero :: "pyval \<Rightarrow> bool option" where
  "gt_zero (PInt n) = Some (0 < n)"
| "gt_zero (PFloat x) = Some (flt (Fin 0) x)"
| "gt_zero (PBool b) = Some b"
| "gt_zero v = None"

fun minus_int :: "pyval \<Rightarrow> int \<Rightarrow> pyval option" where
  "minus_int (PInt n) m = Some (PInt (n - m))"
| "minus_int (PFloat x) m = Some (PFloat (fadd x (round_double (- of_int m))))"
| "minus_int (PBool b) m = Some (PInt ((if b then 1 else 0) - m))"
| "minus_int v m = None"

definition soldered_indicators :: "string list" where
  "soldered_indicators = [''Row Of Chips'', ''Chip'', ''Proprietary Card'', ''Unknown'']"

definition slots_step :: "int \<Rightarrow> st \<Rightarrow> st" where
  "slots_step empty_slots =
     reading (\<lambda>b.
       let total_slots = get_or b ''ram_slots_total'' (PInt 0) in
       case gt_zero total_slots of
         None \<Rightarrow> raise TypeError
       | Some True \<Rightarrow>
           (case minus_int total_slots empty_slots of
              None \<Rightarrow> raise TypeError
            | Some used \<Rightarrow>
                seq [put ''ram_slots_used'' used, put ''ram_slots_available'' (PInt empty_slots)])
       | Some False \<Rightarrow>
           if get b ''ram_soldered'' = PNone
           then seq [put ''ram_soldered'' (PBool True),
                     put ''ram_slots_total'' (PInt 0),
                     put ''ram_slots_used'' (PInt 0),
                     put ''ram_slots_available'' (PInt 0)]
           else skip)"

definition detect_memory :: "lib \<Rightarrow> env \<Rightarrow> st \<Rightarrow> st" where
  "detect_memory L E =
     (let dmidecode_memory = run_command_with_sudo E ''dmidecode -t memory'';
          memory_sections = split_sep ''Handle'' dmidecode_memory;
          meminfo = run_command E ''cat /proc/meminfo'';
          form_factors = findall L Re_Form_Factor dmidecode_memory;
          empty_slots = int (length (findall L Re_Size_No_Module dmidecode_memory))
      in seq
        [put ''dmidecode_memory'' (PStr dmidecode_memory),
         (case installed_ram_sizes L memory_sections of
            None \<Rightarrow> raise ValueError
          | Some sizes \<Rightarrow>
              on_match (search1 L Re_MemTotal meminfo) (\<lambda>g.
                with_int g (\<lambda>mem_kb. ram_size_step (physical_ram_gb sizes) mem_kb))),
         on_match (search1 L Re_Type_DDR dmidecode_memory) (\<lambda>g. put ''ram_type'' (PStr (strip g))),
         on_match (search1 L Re_Speed_MTs dmidecode_memory) (\<lambda>g. put ''ram_speed'' (PStr (g @ '' MHz''))),
         on_match (search2 L Re_Maximum_Capacity dmidecode_memory) (\<lambda>(c, unit).
           with_int c (\<lambda>capacity.
             if unit = ''GB'' then put ''max_ram_capacity_gb'' (PInt capacity)
             else put ''max_ram_capacity_gb'' (PInt (capacity div 1024)))),
         on_match (search1 L Re_Number_Of_Devices dmidecode_memory) (\<lambda>g.
           with_int g (\<lambda>n. put ''ram_slots_total'' (PInt n))),
         (if form_factors \<noteq> []
          then (case map strip (filter (\<lambda>ff. \<not> contains ''No Module'' ff) form_factors) of
                  [] \<Rightarrow> skip
                | ff # others \<Rightarrow>
                    seq [put ''ram_form_factor'' (PStr ff),
                         put ''ram_soldered'' (PBool (list_ex (\<lambda>indicator. contains indicator ff) soldered_indicators))])
          else skip),
         slots_step empty_slots])"

subsection \<open>Display\<close>

text \<open>\<^verbatim>\<open>round((w**2 + h**2)**0.5 / per_inch, 1)\<close>. The power \<^verbatim>\<open>n**0.5\<close> of an integer
  is the parameter \<open>sqrt_float\<close>, \<open>None\<close> when the integer is too large for a float.\<close>

definition diagonal_inches :: "lib \<Rightarrow> int \<Rightarrow> int \<Rightarrow> double \<Rightarrow> error + double" where
  "diagonal_inches L w h per_inch =
     (case sqrt_float L (w ^ 2 + h ^ 2) of
        None \<Rightarrow> Inl OverflowError
      | Some diagonal \<Rightarrow>
          (case fdiv diagonal per_inch of
             None \<Rightarrow> Inl ZeroDivisionError
           | Some q \<Rightarrow> Inr (round_digits 1 q)))"

fun edid_loop :: "lib \<Rightarrow> env \<Rightarrow> string list \<Rightarrow> st \<Rightarrow> st" where
  "edid_loop L E [] = skip"
| "edid_loop L E (edid_file # rest) =
     (if edid_file \<noteq> []
      then (let edid_output = run_command_with_sudo E (''edid-decode '' @ edid_file) in
            if edid_output \<noteq> []
            then seq
              [put ''edid'' (PStr edid_output),
               on_match (search2 L Re_Maximum_image_size edid_output) (\<lambda>(w, h).
                 with_int w (\<lambda>width_cm. with_int h (\<lambda>height_cm.
                   case diagonal_inches L width_cm height_cm (round_double (254 / 100)) of
                     Inl e \<Rightarrow> raise e
                   | Inr inches \<Rightarrow> put ''screen_size_inches'' (PFloat inches))))]
            else edid_loop L E rest)
      else edid_loop L E rest)"

definition is_touch_line :: "string \<Rightarrow> bool" where
  "is_touch_line line = (let line_lower = lower line in
     contains ''touch'' line_lower \<and> \<not> contains ''touchpad'' line_lower)"

definition detect_display :: "lib \<Rightarrow> env \<Rightarrow> st \<Rightarrow> st" where
  "detect_display L E =
     (let xrandr_output = run_command E ''xrandr'';
          xinput_output = run_command E ''xinput list''
      in seq
        [try_except
           (seq
              [put ''xrandr'' (PStr xrandr_output),
               on_match (search2 L Re_Resolution xrandr_output) (\<lambda>(width, height).
                 put ''screen_resolution'' (PStr (width @ '' x '' @ height))),
               on_match (search2 L Re_Size_mm xrandr_output) (\<lambda>(w, h).
                 with_int w (\<lambda>width_mm. with_int h (\<lambda>height_mm.
                   if 0 < width_mm \<and> 0 < height_mm
                   then (case diagonal_inches L width_mm height_mm (round_double (254 / 10)) of
                           Inl e \<Rightarrow> raise e
                         | Inr inches \<Rightarrow> put ''screen_size_inches'' (PFloat inches))
                   else skip)))])
           skip,
         try_except
           (with_output E ''find /sys/class/drm -name edid'' (\<lambda>out.
              edid_loop L E (split_lines (strip out))))
           skip,
         try_except
           (seq
              [put ''xinput'' (PStr xinput_output),
               put ''has_touchscreen'' (PBool (list_ex is_touch_line (split_lines xinput_output)))])
           (put ''has_touchscreen'' PNone)])"

subsection \<open>Graphics\<close>

definition is_gpu_line :: "string \<Rightarrow> bool" where
  "is_gpu_line line = (contains ''VGA'' line \<or> contains ''3D controller'' line)"

definition has_nvidia :: "string list \<Rightarrow> bool" where
  "has_nvidia gpu_lines = list_ex (\<lambda>line. contains ''nvidia'' (lower line)) gpu_lines"

definition has_amd_discrete :: "string list \<Rightarrow> bool" where
  "has_amd_discrete gpu_lines =
     list_ex (\<lambda>line. contains ''amd'' (lower line) \<and> contains ''radeon'' (lower line)) gpu_lines"

definition has_intel :: "string list \<Rightarrow> bool" where
  "has_intel gpu_lines = list_ex (\<lambda>line. contains ''intel'' (lower line)) gpu_lines"

definition gpu_type_step :: "string list \<Rightarrow> st \<Rightarrow> st" where
  "gpu_type_step gpu_lines =
     (if has_nvidia gpu_lines \<or> has_amd_discrete gpu_lines
      then put ''gpu_type'' (PStr ''Dedicated or Discrete GPU'')
      else if has_intel gpu_lines then put ''gpu_type'' (PStr ''Integrated GPU'')
      else skip)"

text \<open>The name stored for a GPU: the vendor and the bracketed text when the brackets hold
  something other than whitespace, the whole controller text otherwise.\<close>

definition gpu_name :: "string \<Rightarrow> string option \<Rightarrow> string \<Rightarrow> string" where
  "gpu_name vendor bracket_match gpu_text =
     (case bracket_match of
        None \<Rightarrow> gpu_text
      | Some b \<Rightarrow> if strip b \<noteq> [] then vendor @ '' '' @ b else gpu_text)"

definition gpu_model_step :: "lib \<Rightarrow> string \<Rightarrow> st \<Rightarrow> st" where
  "gpu_model_step L gpu_line =
     (let gpu_line_lower = lower gpu_line in
      case search1 L Re_Controller gpu_line of
        None \<Rightarrow> skip
      | Some g \<Rightarrow>
          (let gpu_text = strip g; bracket_match = bracket_search gpu_text in
           if contains ''intel'' gpu_line_lower
           then put ''integrated_gpu_model'' (PStr (gpu_name ''Intel'' bracket_match gpu_text))
           else if contains ''amd'' gpu_line_lower \<and> contains ''vega'' gpu_line_lower
           then put ''integrated_gpu_model'' (PStr (gpu_name ''AMD'' bracket_match gpu_text))
           else if contains ''nvidia'' gpu_line_lower
           then put ''dedicated_gpu_model'' (PStr (gpu_name ''NVIDIA'' bracket_match gpu_text))
           else if contains ''amd'' gpu_line_lower \<and> contains ''radeon'' gpu_line_lower
                   \<and> contains ''rx'' gpu_line_lower
           then put ''dedicated_gpu_model'' (PStr (gpu_name ''AMD'' bracket_match gpu_text))
           else skip))"

definition gpu_lines_of :: "string \<Rightarrow> string list" where
  "gpu_lines_of lspci_vga = filter is_gpu_line (split_lines lspci_vga)"

definition detect_graphics :: "lib \<Rightarrow> env \<Rightarrow> st \<Rightarrow> st" where
  "detect_graphics L E =
     (let lspci_vga = run_command E ''lspci'';
          gpu_lines = gpu_lines_of lspci_vga
      in seq
        [put ''lspci'' (PStr lspci_vga),
         (if gpu_lines \<noteq> []
          then seq
            [put ''gpus'' (PList (map PStr gpu_lines)),
             gpu_type_step gpu_lines,
             seq (map (gpu_model_step L) gpu_lines)]
          else skip)])"

subsection \<open>Storage\<close>

record device =
  dev_name :: string
  dev_size :: string
  dev_kind :: string

text \<open>The dictionary \<^verbatim>\<open>{'device': ..., 'size': ..., 'type': ...}\<close> stored for a device.\<close>

definition device_val :: "device \<Rightarrow> pyval" where
  "device_val d = PDict [(''device'', PStr (dev_name d)), (''size'', PStr (dev_size d)), (''type'', PStr (dev_kind d))]"

text \<open>\<^verbatim>\<open>multipliers.get(unit, 1)\<close> with \<^verbatim>\<open>{'K': 0.001, 'M': 0.001, 'G': 1, 'T': 1000}\<close>.\<close>

definition multiplier :: "char \<Rightarrow> double" where
  "multiplier unit =
     (if unit = CHR ''K'' then round_double (1 / 1000)
      else if unit = CHR ''M'' then round_double (1 / 1000)
      else if unit = CHR ''G'' then Fin 1
      else if unit = CHR ''T'' then Fin 1000
      else Fin 1)"

text \<open>The size in GB of a size text that parses; \<open>Inl\<close> is the ValueError of
  \<^verbatim>\<open>float\<close>, \<open>Inr None\<close> a text the size pattern does not match.\<close>

definition size_gb :: "lib \<Rightarrow> string \<Rightarrow> error + double option" where
  "size_gb L size_str =
     (case size_match size_str of
        None \<Rightarrow> Inr None
      | Some (num, unit) \<Rightarrow>
          (case float_of_str (float_other L) num of
             None \<Rightarrow> Inl ValueError
           | Some v \<Rightarrow> Inr (Some (fmul v (multiplier unit)))))"

definition is_removable :: "env \<Rightarrow> string \<Rightarrow> bool" where
  "is_removable E device_name =
     (case shell E (''cat /sys/block/'' @ device_name @ ''/removable'') of
        Some out \<Rightarrow> strip out = ''1''
      | None \<Rightarrow> False)"

text \<open>The first loop of \<^verbatim>\<open>detect_storage\<close>, over the lines of \<^verbatim>\<open>lsblk\<close> after the header.\<close>

fun scan_devices :: "lib \<Rightarrow> env \<Rightarrow> string list \<Rightarrow> error + device list" where
  "scan_devices L E [] = Inr []"
| "scan_devices L E (line # rest) =
     (let parts = split_ws line in
      if 4 \<le> length parts \<and> parts ! 2 = ''disk''
      then (let device_name = parts ! 0;
                device_size = parts ! 1;
                is_rotational = (parts ! 3 = ''1'');
                d = \<lparr>dev_name = device_name, dev_size = device_size,
                     dev_kind = (if is_rotational then ''HDD'' else ''SSD'')\<rparr>
            in case size_gb L device_size of
                 Inl e \<Rightarrow> Inl e
               | Inr (Some gb) \<Rightarrow>
                   if is_removable E device_name \<or> flt gb (Fin 32) then scan_devices L E rest
                   else (case scan_devices L E rest of Inl e \<Rightarrow> Inl e | Inr ds \<Rightarrow> Inr (d # ds))
               | Inr None \<Rightarrow>
                   (case scan_devices L E rest of Inl e \<Rightarrow> Inl e | Inr ds \<Rightarrow> Inr (d # ds)))
      else scan_devices L E rest)"

text \<open>The second loop: the totals \<^verbatim>\<open>(total_ssd_gb, total_hdd_gb)\<close> over the kept devices.\<close>

fun total_capacity :: "lib \<Rightarrow> device list \<Rightarrow> double \<times> double \<Rightarrow> error + double \<times> double" where
  "total_capacity L [] totals = Inr totals"
| "total_capacity L (d # ds) totals =
     (case size_gb L (dev_size d) of
        Inl e \<Rightarrow> Inl e
      | Inr None \<Rightarrow> total_capacity L ds totals
      | Inr (Some gb) \<Rightarrow>
          if dev_kind d = ''SSD'' then total_capacity L ds (fadd (fst totals) gb, snd totals)
          else total_capacity L ds (fst totals, fadd (snd totals) gb))"

definition report_capacity :: "double \<times> double \<Rightarrow> st \<Rightarrow> st" where
  "report_capacity totals =
     seq [if flt (Fin 0) (fst totals)
          then (case round_int (fst totals) of
                  Inl e \<Rightarrow> raise e
                | Inr n \<Rightarrow> put ''ssd_capacity_gb'' (PInt n))
          else skip,
          if flt (Fin 0) (snd totals)
          then (case round_int (snd totals) of
                  Inl e \<Rightarrow> raise e
                | Inr n \<Rightarrow> put ''hdd_capacity_gb'' (PInt n))
          else skip]"

definition backslash :: string where
  "backslash = [CHR 0x5C]"

definition quote :: string where
  "quote = [CHR 0x27]"

definition lspci_storage_cmd :: string where
  "lspci_storage_cmd =
     ''lspci | grep -i '' @ quote @ ''storage'' @ backslash @ ''|sata'' @ backslash @ ''|nvme''
       @ backslash @ ''|mmc'' @ quote"

definition emmc_step :: "env \<Rightarrow> st \<Rightarrow> st" where
  "emmc_step E =
     try_except
       (with_output E ''ls /dev/mmcblk* 2>/dev/null | wc -l'' (\<lambda>out.
          with_int (strip out) (\<lambda>n. put ''has_emmc_storage'' (PBool (0 < n)))))
       (put ''has_emmc_storage'' (PBool False))"

definition controller_type :: "string \<Rightarrow> string" where
  "controller_type lspci_storage =
     (let low = lower lspci_storage in
      if contains ''nvme'' low \<or> contains ''non-volatile memory'' low then ''NVMe''
      else if contains ''emmc'' low \<or> contains ''mmc'' low then ''eMMC''
      else if contains ''sata'' low then ''SATA''
      else if contains ''ahci'' low then ''SATA (AHCI)''
      else ''Unknown'')"

definition controller_step :: "env \<Rightarrow> st \<Rightarrow> st" where
  "controller_step E =
     try_except
       (with_output E lspci_storage_cmd (\<lambda>lspci_storage.
          if lspci_storage \<noteq> []
          then seq [put ''lspci_storage'' (PStr (strip lspci_storage)),
                    put ''storage_controller_type'' (PStr (controller_type lspci_storage))]
          else skip))
       skip"

definition confidence_step :: "double \<times> double \<Rightarrow> st \<Rightarrow> st" where
  "confidence_step totals =
     reading (\<lambda>b.
       if truthy (get b ''has_emmc_storage'')
       then put ''storage_soldered_confidence'' (PStr ''confirmed_soldered'')
       else if get b ''storage_controller_type'' = PStr ''NVMe''
       then put ''storage_soldered_confidence''
              (PStr ''unknown - M.2 SSD detected, could be socketed or soldered'')
       else if get b ''storage_controller_type'' \<in> set [PStr ''SATA'', PStr ''SATA (AHCI)'']
       then put ''storage_soldered_confidence''
              (PStr ''likely_removable - SATA interface typically uses removable drives'')
       else if fst totals = Fin 0 \<and> snd totals = Fin 0
       then put ''storage_soldered_confidence'' (PStr ''no_storage_detected'')
       else put ''storage_soldered_confidence'' (PStr ''unknown''))"

text \<open>What \<^verbatim>\<open>detect_storage\<close> does with the outcome of its first loop: it stores the
  kept devices, totals their sizes and goes on to the controller checks.\<close>

definition record_storage :: "lib \<Rightarrow> env \<Rightarrow> error + device list \<Rightarrow> st \<Rightarrow> st" where
  "record_storage L E scanned =
     (case scanned of
        Inl e \<Rightarrow> raise e
      | Inr storage_devices \<Rightarrow>
          seq
            [put ''storage_devices'' (PList (map device_val storage_devices)),
             (case total_capacity L storage_devices (Fin 0, Fin 0) of
                Inl e \<Rightarrow> raise e
              | Inr totals \<Rightarrow>
                  seq [report_capacity totals, emmc_step E, controller_step E,
                       confidence_step totals])])"

definition detect_storage :: "lib \<Rightarrow> env \<Rightarrow> st \<Rightarrow> st" where
  "detect_storage L E =
     (let lsblk_output = run_command E ''lsblk -d -o NAME,SIZE,TYPE,ROTA'' in
      seq
        [put ''lsblk'' (PStr lsblk_output),
         record_storage L E (scan_devices L E (drop 1 (split_lines lsblk_output)))])"

subsection \<open>Battery, network, USB and webcam\<close>

text \<open>\<^verbatim>\<open>round(wh * 1000 / voltage)\<close> and the write of its result.\<close>

definition mah_step :: "double \<Rightarrow> double \<Rightarrow> st \<Rightarrow> st" where
  "mah_step wh voltage =
     (case fdiv (fmul wh (Fin 1000)) voltage of
        None \<Rightarrow> raise ZeroDivisionError
      | Some q \<Rightarrow>
          (case round_int q of
             Inl e \<Rightarrow> raise e
           | Inr mah \<Rightarrow> put ''battery_capacity_mah'' (PInt mah)))"

definition detect_battery :: "lib \<Rightarrow> env \<Rightarrow> st \<Rightarrow> st" where
  "detect_battery L E =
     (let upower_output = run_command E ''upower -i /org/freedesktop/UPower/devices/battery_BAT0'' in
      seq
        [try_except
           (seq
              [put ''upower'' (PStr upower_output),
               on_match (search1 L Re_energy_full upower_output) (\<lambda>cg.
                 with_float L cg (\<lambda>wh.
                   case search1 L Re_voltage upower_output of
                     Some vg \<Rightarrow> with_float L vg (\<lambda>voltage. mah_step wh voltage)
                   | None \<Rightarrow> mah_step wh (round_double (111 / 10))))])
           skip,
         try_except (put ''acpi'' (PStr (run_command E ''acpi -V''))) skip,
         try_except
           (with_output E ''cat /sys/class/power_supply/BAT*/uevent'' (\<lambda>battery_info.
              seq
                [put ''battery_sys'' (PStr battery_info),
                 on_match (search1 L Re_CHARGE_FULL battery_info) (\<lambda>g.
                   with_int g (\<lambda>uah.
                     case int_true_div uah 1000 of
                       Inl e \<Rightarrow> raise e
                     | Inr q \<Rightarrow>
                         (case round_int q of
                            Inl e \<Rightarrow> raise e
                          | Inr mah \<Rightarrow> put ''battery_capacity_mah'' (PInt mah))))]))
           skip])"

definition lspci_network_cmd :: string where
  "lspci_network_cmd =
     ''lspci | grep -i '' @ quote @ ''network'' @ backslash @ ''|ethernet'' @ backslash @ ''|wireless''
       @ backslash @ ''|wi-fi'' @ quote"

definition detect_network :: "lib \<Rightarrow> env \<Rightarrow> st \<Rightarrow> st" where
  "detect_network L E =
     with_output E lspci_network_cmd (\<lambda>lspci_net.
       let lspci_lower = lower lspci_net in
       seq
         [put ''lspci_network'' (PStr lspci_net),
          (if contains ''wireless'' lspci_lower \<or> contains ''wi-fi'' lspci_lower
              \<or> contains ''wifi'' lspci_lower \<or> contains ''network controller'' lspci_lower
           then seq
             [put ''has_wifi'' (PBool True),
              if contains ''IEEE 802.11'' (run_command E ''iwconfig'')
              then put ''wifi_standard'' (PStr ''802.11a/b/g/n/ac'')
              else skip]
           else put ''has_wifi'' (PBool False)),
          (if contains ''ethernet'' (lower lspci_net) then put ''has_ethernet'' (PBool True) else skip),
          try_except
            (if contains ''hci0'' (run_command E ''hciconfig'') then put ''has_bluetooth'' (PBool True)
             else skip)
            skip])"

definition usb_count_cmd :: string where
  "usb_count_cmd = ''find /sys/bus/usb/devices/usb* -name '' @ quote @ ''product'' @ quote @ '' | wc -l''"

definition detect_usb_ports :: "lib \<Rightarrow> env \<Rightarrow> st \<Rightarrow> st" where
  "detect_usb_ports L E =
     seq
       [put ''lsusb'' (PStr (run_command E ''lsusb'')),
        try_except
          (with_output E usb_count_cmd (\<lambda>out.
             let usb_ports = strip out in
             if usb_ports \<noteq> [] then with_int usb_ports (\<lambda>n. put ''usb_port_count'' (PInt n))
             else put ''usb_port_count'' (PInt 0)))
          skip]"

definition detect_webcam :: "lib \<Rightarrow> env \<Rightarrow> st \<Rightarrow> st" where
  "detect_webcam L E =
     try_except
       (with_output E ''ls /dev/video* 2>/dev/null | wc -l'' (\<lambda>out.
          let video_devices = strip out in
          if video_devices \<noteq> []
          then with_int video_devices (\<lambda>n. put ''has_webcam'' (PBool (0 < n)))
          else put ''has_webcam'' (PBool False)))
       (put ''has_webcam'' (PBool False))"

definition detect_all :: "lib \<Rightarrow> env \<Rightarrow> st \<Rightarrow> st" where
  "detect_all L E =
     seq
       [detect_system_info L E,
        detect_processor L E,
        detect_memory L E,
        detect_display L E,
        detect_graphics L E,
        detect_storage L E,
        detect_battery L E,
        detect_network L E,
        detect_usb_ports L E,
        detect_webcam L E]"

section \<open>The mapper\<close>

text \<open>\<^verbatim>\<open>str(v)\<close> as an f-string formats a value; floats, lists and dictionaries are left to
  the parameter \<open>str_other\<close>.\<close>

definition py_str :: "lib \<Rightarrow> pyval \<Rightarrow> string" where
  "py_str L v =
     (case v of
        PStr s \<Rightarrow> s
      | PInt i \<Rightarrow> str_of_int i
      | PBool b \<Rightarrow> (if b then ''True'' else ''False'')
      | PNone \<Rightarrow> ''None''
      | _ \<Rightarrow> str_other L v)"

definition yes_no :: "pyval \<Rightarrow> pyval" where
  "yes_no v = PStr (if truthy v then ''Yes'' else ''No'')"

text \<open>The dictionary literal of \<^verbatim>\<open>map_to_bestbuy_fields\<close>, before empty fields are removed.\<close>

definition bestbuy_literal :: "lib \<Rightarrow> bag \<Rightarrow> bag" where
  "bestbuy_literal L raw_data =
     [(''BBYCat'', PStr ''Computers/Laptops''),
      (''shop_sku'', PStr (''SKU-'' @ py_str L (get_or raw_data ''sku'' (PStr ''UNKNOWN'')))),
      (''_Brand_Name_Category_Root_EN'', get_or raw_data ''brand'' (PStr [])),
      (''_Model_Number_Category_Root_EN'', get_or raw_data ''model'' (PStr [])),
      (''_ProcessorType_3885_CAT_1002_EN'', get_or raw_data ''cpu_model'' (PStr [])),
      (''_ProcessorSpeed_3886_CAT_1002_EN'',
         get_or raw_data ''cpu_max_ghz'' (get_or raw_data ''cpu_speed_ghz'' (PStr []))),
      (''_ProcessorCores_23322_CAT_1002_EN'', get_or raw_data ''cpu_cores'' (PStr [])),
      (''_ProcessorCache_3897_CAT_1002_EN'', get_or raw_data ''cpu_l3_cache'' (PStr [])),
      (''_RAMSize_9685909_CAT_1002_EN'', get_or raw_data ''ram_size_gb'' (PStr [])),
      (''_RAMType_24674_CAT_1002_EN'',
         PStr (py_str L (get_or raw_data ''ram_size_gb'' (PStr [])) @ '' GB ''
               @ py_str L (get_or raw_data ''ram_type'' (PStr [])) @ '' ''
               @ py_str L (get_or raw_data ''ram_speed'' (PStr [])))),
      (''_SolidStateDriveCapacity_4085597_CAT_1002_EN'', get_or raw_data ''ssd_capacity_gb'' (PStr [])),
      (''_HardDiskDriveCapacity_4085566_CAT_1002_EN'', get_or raw_data ''hdd_capacity_gb'' (PStr [])),
      (''_ScreenSize_3914_CAT_1002_EN'', get_or raw_data ''screen_size_inches'' (PStr [])),
      (''_NativeScreenResolution_15195_CAT_1002_EN'', get_or raw_data ''screen_resolution'' (PStr [])),
      (''_ScreenResolution_25959883_CAT_1002_EN'', get_or raw_data ''screen_resolution'' (PStr [])),
      (''_TouchscreenDisplay_23335_CAT_1002_EN'', yes_no (get raw_data ''has_touchscreen'')),
      (''_GraphicsCard_15196_CAT_1002_EN'', get_or raw_data ''gpu_model'' (PStr [])),
      (''_GraphicsProcessingUnitType_22765592_CAT_1002_EN'', get_or raw_data ''gpu_type'' (PStr [])),
      (''_BatteryCapacity_15253_CAT_1002_EN'', get_or raw_data ''battery_capacity_mah'' (PStr [])),
      (''_IntegratedWiFi_15245_CAT_1002_EN'', yes_no (get raw_data ''has_wifi'')),
      (''_IntegratedBluetooth_15246_CAT_1002_EN'', yes_no (get raw_data ''has_bluetooth'')),
      (''_EthernetPort_6605_CAT_1002_EN'', yes_no (get raw_data ''has_ethernet'')),
      (''_Webcam_15213_CAT_1002_EN'', yes_no (get raw_data ''has_webcam''))]"

text \<open>\<^verbatim>\<open>{k: v for k, v in self.bestbuy_data.items() if v}\<close>.\<close>

definition map_to_bestbuy_fields :: "lib \<Rightarrow> bag \<Rightarrow> bag" where
  "map_to_bestbuy_fields L raw_data = filter (\<lambda>kv. truthy (snd kv)) (bestbuy_literal L raw_data)"

section \<open>The interactive prompt and the local files\<close>

text \<open>The detector object: its two dictionaries.\<close>

record detector =
  raw_data :: bag
  bestbuy_data :: bag

text \<open>
  \<^verbatim>\<open>input(...)\<close> takes the next answer; with no answer left it raises EOFError, which
  nothing in \<^verbatim>\<open>main\<close> catches. A prompt is a function on the detector and the answers
  left, \<open>None\<close> for that exception.
\<close>

type_synonym prompt = "detector \<times> string list \<Rightarrow> (detector \<times> string list) option"

definition ask :: "(string \<Rightarrow> detector \<Rightarrow> detector) \<Rightarrow> prompt" where
  "ask f = (\<lambda>(D, answers). case answers of [] \<Rightarrow> None | a # rest \<Rightarrow> Some (f a D, rest))"

definition set_raw :: "string \<Rightarrow> pyval \<Rightarrow> detector \<Rightarrow> detector" where
  "set_raw k v D = D\<lparr>raw_data := set_item k v (raw_data D)\<rparr>"

definition set_bestbuy :: "string \<Rightarrow> pyval \<Rightarrow> detector \<Rightarrow> detector" where
  "set_bestbuy k v D = D\<lparr>bestbuy_data := set_item k v (bestbuy_data D)\<rparr>"

text \<open>\<^verbatim>\<open>v == 0\<close> for a value of the bag.\<close>

definition is_zero :: "pyval \<Rightarrow> bool" where
  "is_zero v = (v = PInt 0 \<or> v = PFloat (Fin 0) \<or> v = PBool False)"

definition prompt_screen_size :: "lib \<Rightarrow> prompt" where
  "prompt_screen_size L = (\<lambda>(D, answers).
     if \<not> truthy (get (raw_data D) ''screen_size_inches'') \<or> is_zero (get (raw_data D) ''screen_size_inches'')
     then ask (\<lambda>a. set_raw ''screen_size_inches''
                 (PFloat (case float_of_str (float_other L) (strip a) of Some x \<Rightarrow> x | None \<Rightarrow> Fin 14)))
            (D, answers)
     else Some (D, answers))"

definition keyboard_language :: "string \<Rightarrow> string" where
  "keyboard_language choice =
     (case map_of [(''1'', ''English''), (''2'', ''French''), (''3'', ''Bilingual'')] choice of
        Some l \<Rightarrow> l
      | None \<Rightarrow> ''English'')"

definition condition_map :: "(string \<times> string) list" where
  "condition_map =
     [(''1'', ''Brand New''), (''2'', ''Open Box''), (''3'', ''Refurbished Excellent''),
      (''4'', ''Refurbished Good''), (''5'', ''Refurbished Fair'')]"

definition product_condition :: "string \<Rightarrow> string" where
  "product_condition choice = (case map_of condition_map choice of Some c \<Rightarrow> c | None \<Rightarrow> ''Brand New'')"

definition yes_if_y :: "string \<Rightarrow> pyval" where
  "yes_if_y a = PStr (if lower (strip a) = ''y'' then ''Yes'' else ''No'')"

definition prompt_touchscreen :: prompt where
  "prompt_touchscreen = (\<lambda>(D, answers).
     if get (raw_data D) ''has_touchscreen'' = PNone
     then ask (\<lambda>a. set_raw ''has_touchscreen'' (PBool (lower (strip a) = ''y''))) (D, answers)
     else Some (D, answers))"

definition prompt_manual_fields :: "lib \<Rightarrow> prompt" where
  "prompt_manual_fields L s =
     Option.bind (prompt_screen_size L s) (\<lambda>s.
     Option.bind (ask (\<lambda>a. set_bestbuy ''_KeyboardLanguage_24678_CAT_1002_EN''
                              (PStr (keyboard_language (strip a)))) s) (\<lambda>s.
     Option.bind (ask (\<lambda>a. set_bestbuy ''_BacklitKeyboard_24680_CAT_1002_EN'' (yes_if_y a)) s) (\<lambda>s.
     Option.bind (prompt_touchscreen s) (\<lambda>s.
     Option.bind (ask (\<lambda>a. set_bestbuy ''_ConvertibleHybridDisplay_36185_CAT_1002_EN'' (yes_if_y a)) s) (\<lambda>s.
     Option.bind (ask (\<lambda>a. set_bestbuy ''_Colour_5105_CAT_1002_EN'' (PStr (strip a))) s) (\<lambda>s.
     ask (\<lambda>a. set_bestbuy ''_ProductCondition_20257570_CAT_1002_EN''
                 (PStr (product_condition (strip a)))) s))))))"

text \<open>The two JSON documents \<^verbatim>\<open>save_results\<close> writes, by their content.\<close>

datatype json_file =
    Full_dump string bag bag
  | Fields_only bag

type_synonym files = "(string \<times> json_file) list"

definition save_results :: "env \<Rightarrow> detector \<Rightarrow> string \<Rightarrow> files \<Rightarrow> files" where
  "save_results E D output_file fs =
     AList.update (replace ''.json'' ''_bestbuy_only.json'' output_file) (Fields_only (bestbuy_data D))
       (AList.update output_file (Full_dump (clock E) (raw_data D) (bestbuy_data D)) fs)"

definition default_output_file :: string where
  "default_output_file = ''laptop_hardware_data.json''"

section \<open>The uploader\<close>

subsection \<open>GPU names from the raw bag\<close>

text \<open>\<^verbatim>\<open>parts[1].strip().split("(")[0].strip()\<close> when \<^verbatim>\<open>controller:\<close> occurs in the line.\<close>

definition after_controller :: "string \<Rightarrow> string option" where
  "after_controller gpu_line =
     (let parts = split_sep ''controller:'' gpu_line in
      if 1 < length parts
      then Some (strip (case split_sep ''('' (strip (parts ! 1)) of [] \<Rightarrow> [] | p # ps \<Rightarrow> p))
      else None)"

definition named_gpu :: "string \<Rightarrow> string \<Rightarrow> string option" where
  "named_gpu vendor gpu_line =
     (case bracket_search gpu_line of
        Some g \<Rightarrow> Some (vendor @ '' '' @ g)
      | None \<Rightarrow> after_controller gpu_line)"

text \<open>What one pass of the loop body returns for a line, \<open>None\<close> when it falls through.\<close>

definition integrated_of_line :: "string \<Rightarrow> string option" where
  "integrated_of_line gpu_line =
     (let low = lower gpu_line;
          intel = (if contains ''intel'' low
                      \<and> (contains ''uhd'' low \<or> contains ''iris'' low \<or> contains ''hd graphics'' low)
                   then named_gpu ''Intel'' gpu_line else None)
      in case intel of
           Some r \<Rightarrow> Some r
         | None \<Rightarrow>
             if contains ''amd'' low \<and> contains ''radeon'' low \<and> contains ''vega'' low
             then named_gpu ''AMD'' gpu_line else None)"

definition dedicated_of_line :: "string \<Rightarrow> string option" where
  "dedicated_of_line gpu_line =
     (let low = lower gpu_line;
          nvidia = (if contains ''nvidia'' low then named_gpu ''NVIDIA'' gpu_line else None)
      in case nvidia of
           Some r \<Rightarrow> Some r
         | None \<Rightarrow>
             if contains ''amd'' low \<and> contains ''radeon'' low \<and> contains ''rx'' low
             then named_gpu ''AMD'' gpu_line else None)"

text \<open>The items a \<^verbatim>\<open>for\<close> loop takes from a value; \<open>None\<close> is the TypeError of a value
  that is not iterable.\<close>

fun iterate :: "pyval \<Rightarrow> pyval list option" where
  "iterate (PList xs) = Some xs"
| "iterate (PStr s) = Some (map (\<lambda>c. PStr [c]) s)"
| "iterate (PDict kvs) = Some (map (\<lambda>kv. PStr (fst kv)) kvs)"
| "iterate v = None"

fun scan_gpus :: "(string \<Rightarrow> string option) \<Rightarrow> pyval list \<Rightarrow> error + pyval" where
  "scan_gpus f [] = Inr PNone"
| "scan_gpus f (PStr gpu_line # rest) =
     (case f gpu_line of Some r \<Rightarrow> Inr (PStr r) | None \<Rightarrow> scan_gpus f rest)"
| "scan_gpus f (v # rest) = Inl AttributeError"

definition gpus_fallback :: "(string \<Rightarrow> string option) \<Rightarrow> bag \<Rightarrow> error + pyval" where
  "gpus_fallback f raw =
     (if has_key raw ''gpus'' \<and> truthy (get raw ''gpus'')
      then (case iterate (get raw ''gpus'') of None \<Rightarrow> Inl TypeError | Some items \<Rightarrow> scan_gpus f items)
      else Inr PNone)"

text \<open>The conditions of the first \<^verbatim>\<open>if\<close> of the two extractors.\<close>

definition integrated_fast_path :: "bag \<Rightarrow> bool" where
  "integrated_fast_path raw = (has_key raw ''gpu_model'' \<and> get raw ''gpu_type'' = PStr ''Integrated GPU'')"

definition dedicated_fast_path :: "bag \<Rightarrow> bool" where
  "dedicated_fast_path raw =
     (has_key raw ''gpu_model'' \<and> get raw ''gpu_type'' = PStr ''Dedicated or Discrete GPU'')"

definition extract_integrated_gpu :: "bag \<Rightarrow> error + pyval" where
  "extract_integrated_gpu raw =
     (if integrated_fast_path raw then Inr (get raw ''gpu_model'')
      else gpus_fallback integrated_of_line raw)"

definition extract_dedicated_gpu :: "bag \<Rightarrow> error + pyval" where
  "extract_dedicated_gpu raw =
     (if dedicated_fast_path raw then Inr (get raw ''gpu_model'')
      else gpus_fallback dedicated_of_line raw)"

definition has_dedicated_gpu :: "bag \<Rightarrow> error + bool" where
  "has_dedicated_gpu raw =
     (case extract_dedicated_gpu raw of Inl e \<Rightarrow> Inl e | Inr dedicated \<Rightarrow> Inr (dedicated \<noteq> PNone))"

subsection \<open>The remote store\<close>

text \<open>
  The hosted database is reached through the client's query builder. A request is a
  \<open>call\<close>: a select with its columns and filters, an insert, or an upsert with its
  conflict column. The store keeps the rows of each table, a row being a dictionary from
  column names to values. As the uploader relies on it, the store gives every inserted
  row an \<^verbatim>\<open>id\<close> and every variant a \<^verbatim>\<open>shop_sku\<close> (\<open>gen_sku\<close>), answers an insert
  or upsert with the stored row, and compares as SQL does: \<^verbatim>\<open>eq\<close> holds for equal
  values that are not null, \<^verbatim>\<open>is_(col, None)\<close> for a null. Any request may fail:
  \<open>fails S i\<close> says the \<open>i\<close>-th request issued to the service raises. A failed request
  changes nothing in the store; every request issued is recorded in \<open>calls\<close>.
\<close>

datatype qfilter = Col_eq string pyval | Col_is_null string

datatype call =
    Select string "string list" "qfilter list"
  | Insert string bag
  | Upsert string bag string

record store =
  tables :: "(string \<times> bag list) list"
  next_id :: int

definition rows_of :: "store \<Rightarrow> string \<Rightarrow> bag list" where
  "rows_of D t = (case map_of (tables D) t of Some rows \<Rightarrow> rows | None \<Rightarrow> [])"

definition set_rows :: "string \<Rightarrow> bag list \<Rightarrow> store \<Rightarrow> store" where
  "set_rows t rows D = D\<lparr>tables := AList.update t rows (tables D)\<rparr>"

record remote =
  db :: store
  calls :: "call list"

record srv =
  fails :: "nat \<Rightarrow> bool"
  gen_sku :: "int \<Rightarrow> bag \<Rightarrow> pyval"
  connects :: bool

fun sat :: "qfilter \<Rightarrow> bag \<Rightarrow> bool" where
  "sat (Col_eq col v) row = (get row col = v \<and> v \<noteq> PNone)"
| "sat (Col_is_null col) row = (get row col = PNone)"

definition select_rows :: "string list \<Rightarrow> qfilter list \<Rightarrow> bag list \<Rightarrow> bag list" where
  "select_rows cols fs rows =
     map (\<lambda>row. filter (\<lambda>kv. fst kv \<in> set cols) row) (filter (\<lambda>row. list_all (\<lambda>f. sat f row) fs) rows)"

definition stored :: "srv \<Rightarrow> string \<Rightarrow> int \<Rightarrow> bag \<Rightarrow> bag" where
  "stored S t n row =
     (let row1 = set_item ''id'' (PInt n) row in
      if t = ''laptop_variants'' then set_item ''shop_sku'' (gen_sku S n row) row1 else row1)"

definition insert_row :: "srv \<Rightarrow> string \<Rightarrow> bag \<Rightarrow> store \<Rightarrow> bag list \<times> store" where
  "insert_row S t row D =
     (let row' = stored S t (next_id D) row in
      ([row'], (set_rows t (rows_of D t @ [row']) D)\<lparr>next_id := next_id D + 1\<rparr>))"

definition conflicts :: "string \<Rightarrow> bag \<Rightarrow> bag \<Rightarrow> bool" where
  "conflicts col row old = (get old col = get row col \<and> get row col \<noteq> PNone)"

definition merge_row :: "bag \<Rightarrow> bag \<Rightarrow> bag" where
  "merge_row row old = fold (\<lambda>kv. set_item (fst kv) (snd kv)) row old"

definition upsert_row :: "srv \<Rightarrow> string \<Rightarrow> bag \<Rightarrow> string \<Rightarrow> store \<Rightarrow> bag list \<times> store" where
  "upsert_row S t row col D =
     (if list_ex (conflicts col row) (rows_of D t)
      then (let rows' = map (\<lambda>old. if conflicts col row old then merge_row row old else old) (rows_of D t)
            in (filter (conflicts col row) rows', set_rows t rows' D))
      else insert_row S t row D)"

fun exec_call :: "srv \<Rightarrow> call \<Rightarrow> store \<Rightarrow> bag list \<times> store" where
  "exec_call S (Select t cols fs) D = (select_rows cols fs (rows_of D t), D)"
| "exec_call S (Insert t row) D = insert_row S t row D"
| "exec_call S (Upsert t row col) D = upsert_row S t row col D"

definition remote_call :: "srv \<Rightarrow> call \<Rightarrow> remote \<Rightarrow> (error + bag list) \<times> remote" where
  "remote_call S c R =
     (if fails S (length (calls R)) then (Inl APIError, R\<lparr>calls := calls R @ [c]\<rparr>)
      else (let (rows, D) = exec_call S c (db R) in (Inr rows, \<lparr>db = D, calls = calls R @ [c]\<rparr>)))"

text \<open>
  A function that talks to the service is the tree of its requests: it returns, raises, or
  issues a request and goes on with the rows of the answer. An exception of a request is
  caught only to be printed and raised again, so it ends the function.
\<close>

datatype 'a prog = Return 'a | Raise error | Call call "bag list \<Rightarrow> 'a prog"

primrec run :: "srv \<Rightarrow> 'a prog \<Rightarrow> remote \<Rightarrow> (error + 'a) \<times> remote" where
  "run S (Return x) = (\<lambda>R. (Inr x, R))"
| "run S (Raise e) = (\<lambda>R. (Inl e, R))"
| "run S (Call c k) =
     (\<lambda>R. case remote_call S c R of
            (Inl e, R') \<Rightarrow> (Inl e, R')
          | (Inr rows, R') \<Rightarrow> run S (k rows) R')"

text \<open>The store after a list of requests that all succeed.\<close>

definition replay :: "srv \<Rightarrow> call list \<Rightarrow> store \<Rightarrow> store" where
  "replay S cs D = fold (\<lambda>c D'. snd (exec_call S c D')) cs D"

subsection \<open>\<^verbatim>\<open>upload_to_database\<close>\<close>

record upload_result =
  model_id :: pyval
  variant_id :: pyval
  shop_sku :: pyval
  status :: string
  message :: string

text \<open>\<^verbatim>\<open>response.data[0][col]\<close>: IndexError on no row, KeyError on a missing column.\<close>

definition first_col :: "bag list \<Rightarrow> string \<Rightarrow> error + pyval" where
  "first_col rows col =
     (case rows of
        [] \<Rightarrow> Inl IndexError
      | row # others \<Rightarrow> (case map_of row col of None \<Rightarrow> Inl KeyError | Some v \<Rightarrow> Inr v))"

definition has_touchscreen_of :: "bag \<Rightarrow> bool" where
  "has_touchscreen_of bestbuy = (get bestbuy ''_TouchscreenDisplay_23335_CAT_1002_EN'' = PStr ''Yes'')"

definition model_data :: "bag \<Rightarrow> bag \<Rightarrow> pyval \<Rightarrow> pyval \<Rightarrow> bag" where
  "model_data raw bestbuy integrated_gpu dedicated_gpu =
     [(''base_model_name'', get_or raw ''model'' (PStr ''Unknown Model'')),
      (''cpu_model'', get_or raw ''cpu_model'' (PStr ''Unknown CPU'')),
      (''screen_size_inches'', get raw ''screen_size_inches''),
      (''has_touchscreen'', PBool (has_touchscreen_of bestbuy)),
      (''integrated_gpu_model'', integrated_gpu),
      (''dedicated_gpu_model'', dedicated_gpu)]"

text \<open>The nullable GPU columns: \<^verbatim>\<open>is_(col, None)\<close> for \<^verbatim>\<open>None\<close>, \<^verbatim>\<open>eq\<close> otherwise.\<close>

definition gpu_filter :: "string \<Rightarrow> pyval \<Rightarrow> qfilter" where
  "gpu_filter col v = (if v = PNone then Col_is_null col else Col_eq col v)"

definition model_filters :: "bag \<Rightarrow> qfilter list" where
  "model_filters md =
     [Col_eq ''base_model_name'' (get md ''base_model_name''),
      Col_eq ''cpu_model'' (get md ''cpu_model''),
      Col_eq ''screen_size_inches'' (get md ''screen_size_inches''),
      Col_eq ''has_touchscreen'' (get md ''has_touchscreen''),
      gpu_filter ''integrated_gpu_model'' (get md ''integrated_gpu_model''),
      gpu_filter ''dedicated_gpu_model'' (get md ''dedicated_gpu_model'')]"

definition model_query :: "bag \<Rightarrow> call" where
  "model_query md = Select ''laptop_models'' [''id''] (model_filters md)"

definition py_or :: "pyval \<Rightarrow> pyval \<Rightarrow> pyval" where
  "py_or a b = (if truthy a then a else b)"

definition hardware_data :: "bag \<Rightarrow> bag \<Rightarrow> pyval \<Rightarrow> pyval \<Rightarrow> pyval \<Rightarrow> bool \<Rightarrow> bag" where
  "hardware_data raw bestbuy mid integrated_gpu dedicated_gpu has_dedicated =
     [(''model_id'', mid),
      (''brand'', get raw ''brand''),
      (''model'', get raw ''model''),
      (''manufacturer_sku'', get raw ''sku''),
      (''cpu_speed_ghz'', py_or (get raw ''cpu_max_ghz'') (get raw ''cpu_speed_ghz'')),
      (''cpu_cores'', get raw ''cpu_cores''),
      (''cpu_cache'', get raw ''cpu_l3_cache''),
      (''ram_type'', get raw ''ram_type''),
      (''screen_resolution'', get raw ''screen_resolution''),
      (''has_touchscreen'', PBool (has_touchscreen_of bestbuy)),
      (''integrated_gpu_model'', integrated_gpu),
      (''dedicated_gpu_model'', dedicated_gpu),
      (''has_dedicated_gpu'', PBool has_dedicated),
      (''has_wifi'', get_or raw ''has_wifi'' (PBool False)),
      (''has_bluetooth'', get_or raw ''has_bluetooth'' (PBool False)),
      (''has_ethernet'', get_or raw ''has_ethernet'' (PBool False)),
      (''has_webcam'', get_or raw ''has_webcam'' (PBool False)),
      (''raw_detection_json'', PDict raw)]"

text \<open>\<^verbatim>\<open>int(v)\<close> on a value: floats are cut towards zero, strings are parsed.\<close>

fun int_of_val :: "pyval \<Rightarrow> error + int" where
  "int_of_val (PInt i) = Inr i"
| "int_of_val (PBool b) = Inr (if b then 1 else 0)"
| "int_of_val (PFloat x) = int_of_double x"
| "int_of_val (PStr s) = (case int_of_str s of None \<Rightarrow> Inl ValueError | Some n \<Rightarrow> Inr n)"
| "int_of_val v = Inl TypeError"

definition variant_data :: "pyval \<Rightarrow> int \<Rightarrow> pyval \<Rightarrow> bag" where
  "variant_data mid ram_gb ssd_gb =
     [(''model_id'', mid), (''ram_size_gb'', PInt ram_gb), (''ssd_capacity_gb'', ssd_gb), (''price'', PNone)]"

definition variant_query :: "pyval \<Rightarrow> int \<Rightarrow> pyval \<Rightarrow> call" where
  "variant_query mid ram_gb ssd_gb =
     Select ''laptop_variants'' [''id'', ''shop_sku'']
       [Col_eq ''model_id'' mid, Col_eq ''ram_size_gb'' (PInt ram_gb), Col_eq ''ssd_capacity_gb'' ssd_gb]"

definition inventory_data :: "pyval \<Rightarrow> bag" where
  "inventory_data mid = [(''model_id'', mid), (''inventory_count'', PInt 0), (''damaged_count'', PInt 0)]"

definition manual_fields_data :: "bag \<Rightarrow> pyval \<Rightarrow> bag" where
  "manual_fields_data bestbuy vid =
     filter (\<lambda>kv. snd kv \<noteq> PNone)
       [(''variant_id'', vid),
        (''keyboard_language'', get bestbuy ''_KeyboardLanguage_24678_CAT_1002_EN''),
        (''backlit_keyboard'', PBool (get bestbuy ''_BacklitKeyboard_24680_CAT_1002_EN'' = PStr ''Yes'')),
        (''convertible_hybrid'',
           PBool (get bestbuy ''_ConvertibleHybridDisplay_36185_CAT_1002_EN'' = PStr ''Yes'')),
        (''colour'', get bestbuy ''_Colour_5105_CAT_1002_EN''),
        (''product_condition'', get bestbuy ''_ProductCondition_20257570_CAT_1002_EN'')]"

definition exists_result :: "pyval \<Rightarrow> upload_result" where
  "exists_result mid =
     \<lparr>model_id = mid, variant_id = PNone, shop_sku = PNone, status = ''exists'',
      message = ''Model already exists in database. No changes made.''\<rparr>"

definition created_result :: "pyval \<Rightarrow> pyval \<Rightarrow> pyval \<Rightarrow> upload_result" where
  "created_result mid vid sku =
     \<lparr>model_id = mid, variant_id = vid, shop_sku = sku, status = ''created'',
      message = ''Successfully created model, hardware data, variant, inventory, and manual fields.''\<rparr>"

text \<open>Steps 4 and 5: the inventory record and the manual fields.\<close>

definition finish_upload :: "bag \<Rightarrow> pyval \<Rightarrow> pyval \<Rightarrow> pyval \<Rightarrow> upload_result prog" where
  "finish_upload bestbuy mid vid sku =
     Call (Upsert ''laptops'' (inventory_data mid) ''model_id'') (\<lambda>rows.
       let fields = manual_fields_data bestbuy vid in
       if 1 < length fields
       then Call (Upsert ''laptop_manual_fields'' fields ''variant_id'') (\<lambda>rows.
              Return (created_result mid vid sku))
       else Return (created_result mid vid sku))"

text \<open>Step 3: the default variant for the detected RAM and SSD sizes.\<close>

definition id_and_sku :: "bag list \<Rightarrow> (pyval \<Rightarrow> pyval \<Rightarrow> upload_result prog) \<Rightarrow> upload_result prog" where
  "id_and_sku rows k =
     (case first_col rows ''id'' of
        Inl e \<Rightarrow> Raise e
      | Inr vid \<Rightarrow> (case first_col rows ''shop_sku'' of Inl e \<Rightarrow> Raise e | Inr sku \<Rightarrow> k vid sku))"

definition variant_step :: "bag \<Rightarrow> bag \<Rightarrow> pyval \<Rightarrow> upload_result prog" where
  "variant_step raw bestbuy mid =
     (case int_of_val (get_or raw ''ram_size_gb'' (PInt 0)) of
        Inl e \<Rightarrow> Raise e
      | Inr ram_gb \<Rightarrow>
          (let ssd_gb = get_or raw ''ssd_capacity_gb'' (PInt 0) in
           Call (variant_query mid ram_gb ssd_gb) (\<lambda>existing_variant.
             if existing_variant \<noteq> []
             then id_and_sku existing_variant (finish_upload bestbuy mid)
             else Call (Insert ''laptop_variants'' (variant_data mid ram_gb ssd_gb)) (\<lambda>new_variant.
                    id_and_sku new_variant (finish_upload bestbuy mid)))))"

text \<open>Steps 1 and 2: the model row, found or inserted, and the hardware data.\<close>

definition model_step :: "bag \<Rightarrow> bag \<Rightarrow> pyval \<Rightarrow> pyval \<Rightarrow> bool \<Rightarrow> upload_result prog" where
  "model_step raw bestbuy integrated_gpu dedicated_gpu has_dedicated =
     (let md = model_data raw bestbuy integrated_gpu dedicated_gpu in
      Call (model_query md) (\<lambda>existing_model.
        if existing_model \<noteq> []
        then (case first_col existing_model ''id'' of
                Inl e \<Rightarrow> Raise e
              | Inr mid \<Rightarrow> Return (exists_result mid))
        else Call (Insert ''laptop_models'' md) (\<lambda>new_model.
               case first_col new_model ''id'' of
                 Inl e \<Rightarrow> Raise e
               | Inr mid \<Rightarrow>
                   Call (Upsert ''laptop_hardware_data''
                           (hardware_data raw bestbuy mid integrated_gpu dedicated_gpu has_dedicated)
                           ''model_id'')
                     (\<lambda>rows. variant_step raw bestbuy mid))))"

definition upload_prog :: "bag \<Rightarrow> bag \<Rightarrow> upload_result prog" where
  "upload_prog raw bestbuy =
     (case extract_integrated_gpu raw of
        Inl e \<Rightarrow> Raise e
      | Inr integrated_gpu \<Rightarrow>
          (case extract_dedicated_gpu raw of
             Inl e \<Rightarrow> Raise e
           | Inr dedicated_gpu \<Rightarrow>
               (case has_dedicated_gpu raw of
                  Inl e \<Rightarrow> Raise e
                | Inr has_dedicated \<Rightarrow>
                    model_step raw bestbuy integrated_gpu dedicated_gpu has_dedicated)))"

definition upload_to_database :: "srv \<Rightarrow> bag \<Rightarrow> bag \<Rightarrow> remote \<Rightarrow> (error + upload_result) \<times> remote" where
  "upload_to_database S raw bestbuy R = run S (upload_prog raw bestbuy) R"

subsection \<open>Secrets and the client\<close>

text \<open>\<^verbatim>\<open>k in v\<close> for a string \<^verbatim>\<open>k\<close>; \<open>None\<close> is the TypeError of a value without
  membership test.\<close>

fun py_in :: "string \<Rightarrow> pyval \<Rightarrow> bool option" where
  "py_in k (PDict kvs) = Some (has_key kvs k)"
| "py_in k (PList xs) = Some (PStr k \<in> set xs)"
| "py_in k (PStr s) = Some (contains k s)"
| "py_in k v = None"

definition required :: "string list" where
  "required = [''supabase_url'', ''supabase_anon_key'']"

fun missing_keys :: "pyval \<Rightarrow> string list \<Rightarrow> string list option" where
  "missing_keys secrets_val [] = Some []"
| "missing_keys secrets_val (k # ks) =
     (case py_in k secrets_val of
        None \<Rightarrow> None
      | Some present \<Rightarrow> map_option (\<lambda>m. if present then m else k # m) (missing_keys secrets_val ks))"

definition load_secrets :: "env \<Rightarrow> string \<Rightarrow> error + pyval" where
  "load_secrets E secrets_path =
     (case secrets_files E secrets_path of
        Missing \<Rightarrow> Inl FileNotFoundError
      | Unreadable e \<Rightarrow> Inl e
      | Parsed secrets_val \<Rightarrow>
          (case missing_keys secrets_val required of
             None \<Rightarrow> Inl TypeError
           | Some missing \<Rightarrow> if missing \<noteq> [] then Inl ValueError else Inr secrets_val))"

text \<open>\<^verbatim>\<open>json.JSONDecodeError\<close> and \<^verbatim>\<open>UnicodeDecodeError\<close> are subclasses of
  \<^verbatim>\<open>ValueError\<close>: an \<^verbatim>\<open>except ValueError\<close> clause catches them too.\<close>

definition is_ValueError :: "error \<Rightarrow> bool" where
  "is_ValueError e = (e = ValueError \<or> e = JSONDecodeError \<or> e = UnicodeDecodeError)"

text \<open>\<^verbatim>\<open>secrets[k]\<close> on the loaded value.\<close>

fun subscript :: "pyval \<Rightarrow> string \<Rightarrow> error + pyval" where
  "subscript (PDict kvs) k = (case map_of kvs k of None \<Rightarrow> Inl KeyError | Some v \<Rightarrow> Inr v)"
| "subscript v k = Inl TypeError"

definition create_supabase_client :: "srv \<Rightarrow> pyval \<Rightarrow> error + unit" where
  "create_supabase_client S secrets_val =
     (case subscript secrets_val ''supabase_url'' of
        Inl e \<Rightarrow> Inl e
      | Inr url \<Rightarrow>
          (case subscript secrets_val ''supabase_anon_key'' of
             Inl e \<Rightarrow> Inl e
           | Inr k \<Rightarrow> if connects S then Inr () else Inl ClientError))"

section \<open>\<^verbatim>\<open>main\<close>\<close>

record args =
  upload :: bool
  secrets :: string

record world =
  local_files :: files
  service :: remote

text \<open>The body of the \<^verbatim>\<open>try\<close> of the upload branch.\<close>

definition upload_session :: "env \<Rightarrow> srv \<Rightarrow> args \<Rightarrow> detector \<Rightarrow> remote \<Rightarrow> (error + upload_result) \<times> remote" where
  "upload_session E S A D R =
     (if \<not> supabase_installed E then (Inl ImportError, R)
      else (case load_secrets E (secrets A) of
              Inl e \<Rightarrow> (Inl e, R)
            | Inr secrets_val \<Rightarrow>
                (case create_supabase_client S secrets_val of
                   Inl e \<Rightarrow> (Inl e, R)
                 | Inr client \<Rightarrow> upload_to_database S (raw_data D) (bestbuy_data D) R)))"

text \<open>The four \<^verbatim>\<open>except\<close> clauses: each one saves the results to the local files.\<close>

definition handle_error :: "env \<Rightarrow> detector \<Rightarrow> error \<Rightarrow> files \<Rightarrow> files" where
  "handle_error E D e fs =
     (if e = ImportError then save_results E D default_output_file fs
      else if e = FileNotFoundError then save_results E D default_output_file fs
      else if is_ValueError e then save_results E D default_output_file fs
      else save_results E D default_output_file fs)"

text \<open>What \<^verbatim>\<open>main\<close> does once the detector holds its data.\<close>

definition persist :: "env \<Rightarrow> srv \<Rightarrow> args \<Rightarrow> detector \<Rightarrow> world \<Rightarrow> world" where
  "persist E S A D W =
     (if upload A
      then (case upload_session E S A D (service W) of
              (Inl e, R) \<Rightarrow> \<lparr>local_files = handle_error E D e (local_files W), service = R\<rparr>
            | (Inr res, R) \<Rightarrow> W\<lparr>service := R\<rparr>)
      else W\<lparr>local_files := save_results E D default_output_file (local_files W)\<rparr>)"

text \<open>The detector's data at the end of detection, mapping and the prompt; \<open>Inl\<close> is an
  exception that ends the program before anything is saved.\<close>

definition detect_and_prompt :: "lib \<Rightarrow> env \<Rightarrow> error + detector" where
  "detect_and_prompt L E =
     (case detect_all L E ([], None) of
        (raw, Some e) \<Rightarrow> Inl e
      | (raw, None) \<Rightarrow>
          (case prompt_manual_fields L
                  (\<lparr>raw_data = raw, bestbuy_data = map_to_bestbuy_fields L raw\<rparr>, console E) of
             None \<Rightarrow> Inl EOFError
           | Some (D, answers) \<Rightarrow> Inr D))"

definition main :: "lib \<Rightarrow> env \<Rightarrow> srv \<Rightarrow> args \<Rightarrow> world \<Rightarrow> error + world" where
  "main L E S A W =
     (case detect_and_prompt L E of
        Inl e \<Rightarrow> Inl e
      | Inr D \<Rightarrow> Inr (persist E S A D W))"

section \<open>Tables and sample inputs for the theorems\<close>

text \<open>The attributes \<^verbatim>\<open>map_to_bestbuy_fields\<close> writes as \<^verbatim>\<open>"Yes" if ... else "No"\<close>,
  each with the raw flag it reads.\<close>

definition flag_attributes :: "(string \<times> string) list" where
  "flag_attributes =
     [(''_TouchscreenDisplay_23335_CAT_1002_EN'', ''has_touchscreen''),
      (''_IntegratedWiFi_15245_CAT_1002_EN'', ''has_wifi''),
      (''_IntegratedBluetooth_15246_CAT_1002_EN'', ''has_bluetooth''),
      (''_EthernetPort_6605_CAT_1002_EN'', ''has_ethernet''),
      (''_Webcam_15213_CAT_1002_EN'', ''has_webcam'')]"

text \<open>The attributes it copies from one raw field with \<^verbatim>\<open>self.raw_data.get(key, '')\<close>.\<close>

definition copied_attributes :: "(string \<times> string) list" where
  "copied_attributes =
     [(''_Brand_Name_Category_Root_EN'', ''brand''),
      (''_Model_Number_Category_Root_EN'', ''model''),
      (''_ProcessorType_3885_CAT_1002_EN'', ''cpu_model''),
      (''_ProcessorCores_23322_CAT_1002_EN'', ''cpu_cores''),
      (''_ProcessorCache_3897_CAT_1002_EN'', ''cpu_l3_cache''),
      (''_RAMSize_9685909_CAT_1002_EN'', ''ram_size_gb''),
      (''_SolidStateDriveCapacity_4085597_CAT_1002_EN'', ''ssd_capacity_gb''),
      (''_HardDiskDriveCapacity_4085566_CAT_1002_EN'', ''hdd_capacity_gb''),
      (''_ScreenSize_3914_CAT_1002_EN'', ''screen_size_inches''),
      (''_NativeScreenResolution_15195_CAT_1002_EN'', ''screen_resolution''),
      (''_ScreenResolution_25959883_CAT_1002_EN'', ''screen_resolution''),
      (''_GraphicsCard_15196_CAT_1002_EN'', ''gpu_model''),
      (''_GraphicsProcessingUnitType_22765592_CAT_1002_EN'', ''gpu_type''),
      (''_BatteryCapacity_15253_CAT_1002_EN'', ''battery_capacity_mah'')]"

text \<open>A library whose regular expressions never match.\<close>

definition quiet_lib :: lib where
  "quiet_lib =
     \<lparr>search1 = (\<lambda>p t. None), search2 = (\<lambda>p t. None), findall = (\<lambda>p t. []),
      float_other = (\<lambda>s. None), sqrt_float = (\<lambda>n. None), str_other = (\<lambda>v. [])\<rparr>"

text \<open>A step keeps a key when it never changes what the bag holds for it.\<close>

definition keeps :: "string \<Rightarrow> (st \<Rightarrow> st) \<Rightarrow> bool" where
  "keeps k f = (\<forall>s. map_of (fst (f s)) k = map_of (fst s) k)"

named_theorems keeps_intros

text \<open>A prompt keeps a key of the raw bag and a key of the attribute set.\<close>

definition prompt_keeps :: "string \<Rightarrow> string \<Rightarrow> prompt \<Rightarrow> bool" where
  "prompt_keeps kr kb p =
     (\<forall>D a D' a'. p (D, a) = Some (D', a') \<longrightarrow>
        map_of (raw_data D') kr = map_of (raw_data D) kr
        \<and> map_of (bestbuy_data D') kb = map_of (bestbuy_data D) kb)"

text \<open>
  A sample machine: an Intel and an NVIDIA graphics controller, three disks of which one is a
  removable 16 GB stick, 7864320 kB of memory, and an operator who answers every question.
  The sample library answers the controller pattern with the text between
  \<^verbatim>\<open>controller:\<close> and the revision, and the memory-total pattern on a one-line
  \<^verbatim>\<open>/proc/meminfo\<close>; no other pattern matches.
\<close>

definition lspci_sample :: string where
  "lspci_sample =
     ''00:02.0 VGA compatible controller: Intel Corporation UHD Graphics 620 (rev 07)'' @ [newline]
     @ ''00:1f.3 Audio device: Intel Corporation Sunrise Point-LP HD Audio (rev 21)'' @ [newline]
     @ ''01:00.0 3D controller: NVIDIA Corporation GP108M [GeForce MX150] (rev a1)'' @ [newline]"

definition lsblk_sample :: string where
  "lsblk_sample =
     ''NAME    SIZE TYPE ROTA'' @ [newline]
     @ ''sda     256G disk    0'' @ [newline]
     @ ''nvme0n1   1T disk    0'' @ [newline]
     @ ''sdb      16G disk    0'' @ [newline]"

definition sample_lib :: lib where
  "sample_lib =
     \<lparr>search1 = (\<lambda>p t.
        if p = Re_Controller then after_controller t
        else if p = Re_MemTotal
        then (case split_ws t of
                [label, n, unit] \<Rightarrow> if label = ''MemTotal:'' \<and> unit = ''kB'' then Some n else None
              | _ \<Rightarrow> None)
        else None),
      search2 = (\<lambda>p t. None), findall = (\<lambda>p t. []),
      float_other = (\<lambda>s. None), sqrt_float = (\<lambda>n. None), str_other = (\<lambda>v. [])\<rparr>"

definition sample_env :: env where
  "sample_env =
     \<lparr>shell = (\<lambda>cmd.
        if cmd = ''lspci'' then Some lspci_sample
        else if cmd = ''lsblk -d -o NAME,SIZE,TYPE,ROTA'' then Some lsblk_sample
        else if cmd = ''cat /sys/block/sdb/removable'' then Some (''1'' @ [newline])
        else if cmd = ''cat /proc/meminfo'' then Some ''MemTotal:        7864320 kB''
        else Some []),
      console = [''15.6'', ''1'', ''y'', ''n'', ''Black'', ''3''],
      clock = ''2024-01-01T00:00:00'',
      secrets_files = (\<lambda>p. Missing),
      supabase_installed = True\<rparr>"

text \<open>The command line of the block-device lister, as \<^verbatim>\<open>detect_storage\<close> runs it.\<close>

definition lsblk_cmd :: string where
  "lsblk_cmd = ''lsblk -d -o NAME,SIZE,TYPE,ROTA''"

text \<open>The sample machine with a secrets file on which \<^verbatim>\<open>json.load\<close> raises
  \<^verbatim>\<open>json.JSONDecodeError\<close>, and with one that lacks the access key.\<close>

definition broken_secrets_env :: env where
  "broken_secrets_env = sample_env\<lparr>secrets_files := (\<lambda>p. Unreadable JSONDecodeError)\<rparr>"

definition partial_secrets_env :: env where
  "partial_secrets_env =
     sample_env\<lparr>secrets_files := (\<lambda>p. Parsed (PDict [(''supabase_url'', PStr ''https://db.example'')]))\<rparr>"

text \<open>
  The sample machine with other disks: three solid-state disks whose sizes are not doubles,
  a rotating disk of 31.9999999999999999G, which \<^verbatim>\<open>float\<close> reads as 32.0, and a
  removable 16 GB stick.
\<close>

definition lsblk_rounding :: string where
  "lsblk_rounding =
     ''NAME    SIZE TYPE ROTA'' @ [newline]
     @ ''sda   465.8G disk    0'' @ [newline]
     @ ''sdb   447.1G disk    0'' @ [newline]
     @ ''sdc      16G disk    0'' @ [newline]
     @ ''nvme0n1 59.6G disk  0'' @ [newline]
     @ ''sdd 31.9999999999999999G disk 1'' @ [newline]"

definition rounding_env :: env where
  "rounding_env =
     sample_env\<lparr>shell := (\<lambda>cmd.
        if cmd = ''lsblk -d -o NAME,SIZE,TYPE,ROTA'' then Some lsblk_rounding
        else if cmd = ''cat /sys/block/sdc/removable'' then Some (''1'' @ [newline])
        else Some [])\<rparr>"

text \<open>A service on which no request fails.\<close>

definition no_fail_srv :: srv where
  "no_fail_srv = \<lparr>fails = (\<lambda>i. False), gen_sku = (\<lambda>n row. PStr (''SKU-'' @ str_of_int n)), connects = True\<rparr>"

text \<open>No local file and an empty store.\<close>

definition empty_world :: world where
  "empty_world = \<lparr>local_files = [], service = \<lparr>db = \<lparr>tables = [], next_id = 1\<rparr>, calls = []\<rparr>\<rparr>"

text \<open>The command line \<^verbatim>\<open>--upload\<close> with the default secrets path.\<close>

definition upload_args :: args where
  "upload_args = \<lparr>upload = True, secrets = ''secrets.json''\<rparr>"

text \<open>
  The key of a model row, as the query of \<^verbatim>\<open>upload_to_database\<close> compares it: a row and
  the model data of an upload have identical key fields when the four columns compared with
  \<^verbatim>\<open>eq\<close> (\<^verbatim>\<open>base_model_name\<close>, \<^verbatim>\<open>cpu_model\<close>, \<^verbatim>\<open>screen_size_inches\<close>,
  \<^verbatim>\<open>has_touchscreen\<close>) hold the same values, none of them null, and the two nullable GPU
  columns hold the same values, null matching null. The brand is no column of the model
  table and no part of the key.
\<close>

definition same_model_key :: "bag \<Rightarrow> bag \<Rightarrow> bool" where
  "same_model_key md row =
     (list_all (\<lambda>col. get row col = get md col \<and> get row col \<noteq> PNone)
        [''base_model_name'', ''cpu_model'', ''screen_size_inches'', ''has_touchscreen'']
      \<and> list_all (\<lambda>col. get row col = get md col) [''integrated_gpu_model'', ''dedicated_gpu_model''])"

text \<open>A raw bag and an attribute set of a laptop with integrated graphics, and an empty store.\<close>

definition sample_raw :: bag where
  "sample_raw =
     [(''brand'', PStr ''Dell Inc.''), (''model'', PStr ''Latitude 5490''),
      (''cpu_model'', PStr ''Intel(R) Core(TM) i5-8350U CPU @ 1.70GHz''),
      (''screen_size_inches'', PFloat (Fin 14)), (''ram_size_gb'', PInt 8), (''ssd_capacity_gb'', PInt 256),
      (''gpus'', PList [PStr ''00:02.0 VGA compatible controller: Intel Corporation UHD Graphics 620 (rev 07)'']),
      (''gpu_type'', PStr ''Integrated GPU'')]"

definition sample_bestbuy :: bag where
  "sample_bestbuy =
     [(''_TouchscreenDisplay_23335_CAT_1002_EN'', PStr ''No''),
      (''_KeyboardLanguage_24678_CAT_1002_EN'', PStr ''English''),
      (''_BacklitKeyboard_24680_CAT_1002_EN'', PStr ''Yes''),
      (''_ConvertibleHybridDisplay_36185_CAT_1002_EN'', PStr ''No''),
      (''_Colour_5105_CAT_1002_EN'', PStr ''Black''),
      (''_ProductCondition_20257570_CAT_1002_EN'', PStr ''Refurbished Good'')]"

definition empty_remote :: remote where
  "empty_remote = \<lparr>db = \<lparr>tables = [], next_id = 1\<rparr>, calls = []\<rparr>"

text \<open>The store after one upload of the sample on the service that never fails, and the model row it then holds.\<close>

definition uploaded_once :: remote where
  "uploaded_once = snd (upload_to_database no_fail_srv sample_raw sample_bestbuy empty_remote)"

definition sample_model_row :: bag where
  "sample_model_row =
     [(''base_model_name'', PStr ''Latitude 5490''),
      (''cpu_model'', PStr ''Intel(R) Core(TM) i5-8350U CPU @ 1.70GHz''),
      (''screen_size_inches'', PFloat (Fin 14)),
      (''has_touchscreen'', PBool False),
      (''integrated_gpu_model'', PStr ''Intel Corporation UHD Graphics 620''),
      (''dedicated_gpu_model'', PNone),
      (''id'', PInt 1)]"

text \<open>The table a request goes to.\<close>

fun call_table :: "call \<Rightarrow> string" where
  "call_table (Select t cols fs) = t"
| "call_table (Insert t row) = t"
| "call_table (Upsert t row col) = t"

text \<open>A service on which the third request fails and no other, and the sample machine with
  a complete secrets file.\<close>

definition third_fails_srv :: srv where
  "third_fails_srv = no_fail_srv\<lparr>fails := (\<lambda>i. i = 2)\<rparr>"

definition full_secrets_env :: env where
  "full_secrets_env =
     sample_env\<lparr>secrets_files := (\<lambda>p. Parsed (PDict [(''supabase_url'', PStr ''https://db.example''),
                                                      (''supabase_anon_key'', PStr ''key'')]))\<rparr>"

text \<open>The sample laptop under another model name: brand, CPU, screen size and graphics are
  those of the sample.\<close>

definition other_model_raw :: bag where
  "other_model_raw = set_item ''model'' (PStr ''Latitude 7490'') sample_raw"

section \<open>Lemmas on dictionaries\<close>

lemma map_of_filter_snd:
  "distinct (map fst xs) \<Longrightarrow>
   map_of (filter (\<lambda>kv. P (snd kv)) xs) k =
     (case map_of xs k of None \<Rightarrow> None | Some v \<Rightarrow> if P v then Some v else None)"
proof (induction xs)
  case Nil
  then show ?case by simp
next
  case (Cons a xs)
  then have d: "distinct (map fst xs)" and n: "fst a \<notin> fst ` set xs" by auto
  show ?case
  proof (cases "fst a = k")
    case True
    with n have "map_of xs k = None" and "map_of (filter (\<lambda>kv. P (snd kv)) xs) k = None"
      by (auto simp: map_of_eq_None_iff)
    with True show ?thesis by (cases a) auto
  next
    case False
    with Cons.IH [OF d] show ?thesis by (cases a) auto
  qed
qed

lemma get_or_falsy: "\<not> truthy (get d k) \<Longrightarrow> \<not> truthy (get_or d k (PStr []))"
  by (auto simp: get_def get_or_def split: option.splits)

lemma get_or_truthy: "truthy (get d k) \<Longrightarrow> get_or d k dflt = get d k"
  by (auto simp: get_def get_or_def split: option.splits)

section \<open>The mapper: which attributes survive\<close>

lemma distinct_bestbuy_literal: "distinct (map fst (bestbuy_literal L raw))"
  by (simp add: bestbuy_literal_def)

lemma bestbuy_lookup:
  "map_of (map_to_bestbuy_fields L raw) k =
     (case map_of (bestbuy_literal L raw) k of
        None \<Rightarrow> None
      | Some v \<Rightarrow> if truthy v then Some v else None)"
  unfolding map_to_bestbuy_fields_def
  by (rule map_of_filter_snd [OF distinct_bestbuy_literal])

lemma truthy_yes_no: "truthy (yes_no v)"
  by (simp add: yes_no_def)

text \<open>
  Claim C10. For every raw bag, each of the five Yes/No attributes (touchscreen, WiFi,
  Bluetooth, Ethernet port, webcam) is in the final attribute set of
  \<^verbatim>\<open>map_to_bestbuy_fields\<close> with the value "Yes" or "No", so it survives the pruning of
  empty fields; when its raw flag is absent or \<^verbatim>\<open>None\<close> the value is "No".
\<close>

theorem flags_always_mapped:
  "\<forall>p \<in> set flag_attributes.
     (map_of (map_to_bestbuy_fields L raw) (fst p) = Some (PStr ''Yes'')
      \<or> map_of (map_to_bestbuy_fields L raw) (fst p) = Some (PStr ''No''))
     \<and> (get raw (snd p) = PNone \<longrightarrow> map_of (map_to_bestbuy_fields L raw) (fst p) = Some (PStr ''No''))"
  by (simp add: flag_attributes_def bestbuy_lookup bestbuy_literal_def truthy_yes_no)
     (simp add: yes_no_def)

theorem flags_always_mapped_witness:
  "get [(''has_wifi'', PBool True), (''has_touchscreen'', PNone)] ''has_touchscreen'' = PNone
   \<and> map_of (map_to_bestbuy_fields quiet_lib [(''has_wifi'', PBool True), (''has_touchscreen'', PNone)])
        ''_TouchscreenDisplay_23335_CAT_1002_EN'' = Some (PStr ''No'')
   \<and> map_of (map_to_bestbuy_fields quiet_lib [(''has_wifi'', PBool True), (''has_touchscreen'', PNone)])
        ''_IntegratedWiFi_15245_CAT_1002_EN'' = Some (PStr ''Yes'')"
proof -
  have m: "(''_TouchscreenDisplay_23335_CAT_1002_EN'', ''has_touchscreen'') \<in> set flag_attributes"
    by (simp add: flag_attributes_def)
  have g: "get [(''has_wifi'', PBool True), (''has_touchscreen'', PNone)] ''has_touchscreen'' = PNone"
    by (simp add: get_def get_or_def)
  from flags_always_mapped [of quiet_lib "[(''has_wifi'', PBool True), (''has_touchscreen'', PNone)]"] m g
  have "map_of (map_to_bestbuy_fields quiet_lib [(''has_wifi'', PBool True), (''has_touchscreen'', PNone)])
        ''_TouchscreenDisplay_23335_CAT_1002_EN'' = Some (PStr ''No'')"
    by fastforce
  moreover have "map_of (map_to_bestbuy_fields quiet_lib [(''has_wifi'', PBool True), (''has_touchscreen'', PNone)])
        ''_IntegratedWiFi_15245_CAT_1002_EN'' = Some (PStr ''Yes'')"
    by code_simp
  ultimately show ?thesis using g by simp
qed

lemma copy_or_drop:
  "(if truthy (get_or d k (PStr [])) then Some (get_or d k (PStr [])) else None)
   = (if truthy (get d k) then Some (get d k) else None)"
  by (auto simp: get_def get_or_def split: option.splits)

lemma speed_or_drop:
  "(if truthy (get_or d k (get_or d k' (PStr []))) then Some (get_or d k (get_or d k' (PStr []))) else None)
   = (if truthy (get_or d k (get d k')) then Some (get_or d k (get d k')) else None)"
  by (auto simp: get_def get_or_def split: option.splits)

text \<open>
  Claim C4, as stated: every marketplace attribute whose source value is empty or falsy is
  absent from the final attribute set. It fails on the empty bag: the raw flag
  \<^verbatim>\<open>has_wifi\<close> is missing, and the WiFi attribute is kept with the value "No".
\<close>

theorem pruning_every_attribute_counterexample:
  "\<not> (\<forall>L raw. \<forall>p \<in> set (copied_attributes @ flag_attributes).
         \<not> truthy (get raw (snd p)) \<longrightarrow> map_of (map_to_bestbuy_fields L raw) (fst p) = None)"
proof
  assume a: "\<forall>L raw. \<forall>p \<in> set (copied_attributes @ flag_attributes).
         \<not> truthy (get raw (snd p)) \<longrightarrow> map_of (map_to_bestbuy_fields L raw) (fst p) = None"
  have m: "(''_IntegratedWiFi_15245_CAT_1002_EN'', ''has_wifi'') \<in> set (copied_attributes @ flag_attributes)"
    by (simp add: flag_attributes_def)
  have f: "\<not> truthy (get [] ''has_wifi'')"
    by (simp add: get_def get_or_def)
  from a m f have "map_of (map_to_bestbuy_fields quiet_lib []) ''_IntegratedWiFi_15245_CAT_1002_EN'' = None"
    by fastforce
  moreover have "map_of (map_to_bestbuy_fields quiet_lib []) ''_IntegratedWiFi_15245_CAT_1002_EN'' = Some (PStr ''No'')"
    by code_simp
  ultimately show False by simp
qed

text \<open>
  Claim C4, amended. For every raw bag, an attribute that \<^verbatim>\<open>map_to_bestbuy_fields\<close>
  copies from a raw field is absent from the final attribute set when that field is
  missing (it becomes the empty string), empty or falsy, and holds the raw value otherwise;
  the processor speed does so for \<^verbatim>\<open>cpu_max_ghz\<close>, with \<^verbatim>\<open>cpu_speed_ghz\<close> taken
  only when \<^verbatim>\<open>cpu_max_ghz\<close> is missing. The five Yes/No attributes, \<^verbatim>\<open>BBYCat\<close> and
  \<^verbatim>\<open>shop_sku\<close> are never dropped: a missing or falsy flag is mapped to "No".
\<close>

theorem copied_attributes_pruned:
  "(\<forall>p \<in> set copied_attributes.
      map_of (map_to_bestbuy_fields L raw) (fst p)
        = (if truthy (get raw (snd p)) then Some (get raw (snd p)) else None))
   \<and> map_of (map_to_bestbuy_fields L raw) ''_ProcessorSpeed_3886_CAT_1002_EN''
        = (if truthy (get_or raw ''cpu_max_ghz'' (get raw ''cpu_speed_ghz''))
           then Some (get_or raw ''cpu_max_ghz'' (get raw ''cpu_speed_ghz'')) else None)
   \<and> (\<forall>p \<in> set flag_attributes.
        map_of (map_to_bestbuy_fields L raw) (fst p) = Some (yes_no (get raw (snd p))))
   \<and> map_of (map_to_bestbuy_fields L raw) ''BBYCat'' = Some (PStr ''Computers/Laptops'')
   \<and> map_of (map_to_bestbuy_fields L raw) ''shop_sku''
        = Some (PStr (''SKU-'' @ py_str L (get_or raw ''sku'' (PStr ''UNKNOWN''))))"
proof (intro conjI)
  show "\<forall>p \<in> set copied_attributes.
      map_of (map_to_bestbuy_fields L raw) (fst p)
        = (if truthy (get raw (snd p)) then Some (get raw (snd p)) else None)"
    by (simp add: copied_attributes_def bestbuy_lookup bestbuy_literal_def copy_or_drop)
  show "map_of (map_to_bestbuy_fields L raw) ''_ProcessorSpeed_3886_CAT_1002_EN''
        = (if truthy (get_or raw ''cpu_max_ghz'' (get raw ''cpu_speed_ghz''))
           then Some (get_or raw ''cpu_max_ghz'' (get raw ''cpu_speed_ghz'')) else None)"
    by (simp add: bestbuy_lookup bestbuy_literal_def speed_or_drop)
  show "\<forall>p \<in> set flag_attributes.
        map_of (map_to_bestbuy_fields L raw) (fst p) = Some (yes_no (get raw (snd p)))"
    by (simp add: flag_attributes_def bestbuy_lookup bestbuy_literal_def truthy_yes_no)
  show "map_of (map_to_bestbuy_fields L raw) ''BBYCat'' = Some (PStr ''Computers/Laptops'')"
    by (simp add: bestbuy_lookup bestbuy_literal_def)
  show "map_of (map_to_bestbuy_fields L raw) ''shop_sku''
        = Some (PStr (''SKU-'' @ py_str L (get_or raw ''sku'' (PStr ''UNKNOWN''))))"
    by (simp add: bestbuy_lookup bestbuy_literal_def)
qed

theorem copied_attributes_pruned_witness:
  "map_of (map_to_bestbuy_fields quiet_lib [(''brand'', PStr ''Dell''), (''model'', PStr [])])
      ''_Brand_Name_Category_Root_EN'' = Some (PStr ''Dell'')
   \<and> map_of (map_to_bestbuy_fields quiet_lib [(''brand'', PStr ''Dell''), (''model'', PStr [])])
      ''_Model_Number_Category_Root_EN'' = None
   \<and> map_of (map_to_bestbuy_fields quiet_lib [(''brand'', PStr ''Dell''), (''model'', PStr [])])
      ''_ProcessorType_3885_CAT_1002_EN'' = None
   \<and> map_of (map_to_bestbuy_fields quiet_lib [(''brand'', PStr ''Dell''), (''model'', PStr [])])
      ''_Webcam_15213_CAT_1002_EN'' = Some (PStr ''No'')"
  using copied_attributes_pruned [of quiet_lib "[(''brand'', PStr ''Dell''), (''model'', PStr [])]"]
  by (simp add: copied_attributes_def flag_attributes_def get_def get_or_def yes_no_def)

section \<open>Steps and the keys they leave alone\<close>

lemma keeps_put [keeps_intros]: "k \<noteq> k' \<Longrightarrow> keeps k (put k' v)"
  by (auto simp: keeps_def put_def set_item_def update_conv' split: option.splits)

lemma keeps_raise [keeps_intros]: "keeps k (raise e)"
  by (auto simp: keeps_def raise_def split: option.splits)

lemma keeps_skip [keeps_intros]: "keeps k skip"
  by (simp add: keeps_def skip_def)

lemma seq_Nil: "seq [] s = s"
  by (simp add: seq_def)

lemma seq_Cons: "seq (f # fs) s = seq fs (f s)"
  by (simp add: seq_def)

lemma keeps_seq [keeps_intros]: "(\<And>f. f \<in> set fs \<Longrightarrow> keeps k f) \<Longrightarrow> keeps k (seq fs)"
proof (induction fs)
  case Nil
  then show ?case by (simp add: keeps_def seq_Nil)
next
  case (Cons f fs)
  then have f: "keeps k f" and fs: "keeps k (seq fs)" by auto
  show ?case
    unfolding keeps_def
  proof
    fix s
    have "map_of (fst (seq fs (f s))) k = map_of (fst (f s)) k"
      using fs unfolding keeps_def by blast
    also have "\<dots> = map_of (fst s) k"
      using f unfolding keeps_def by blast
    finally show "map_of (fst (seq (f # fs) s)) k = map_of (fst s) k"
      by (simp add: seq_Cons)
  qed
qed

lemma keeps_on_match [keeps_intros]: "(\<And>g. keeps k (f g)) \<Longrightarrow> keeps k (on_match m f)"
  by (auto simp: keeps_def on_match_def split: option.splits)

lemma keeps_reading [keeps_intros]: "(\<And>b. keeps k (f b)) \<Longrightarrow> keeps k (reading f)"
  by (auto simp: keeps_def reading_def)

lemma keeps_try_except [keeps_intros]:
  "keeps k body \<Longrightarrow> keeps k handler \<Longrightarrow> keeps k (try_except body handler)"
  by (auto simp: keeps_def try_except_def Let_def split: option.splits)

lemma keeps_with_float [keeps_intros]: "(\<And>q. keeps k (f q)) \<Longrightarrow> keeps k (with_float L g f)"
  by (auto simp: with_float_def keeps_raise split: option.splits)

lemma keeps_with_int [keeps_intros]: "(\<And>n. keeps k (f n)) \<Longrightarrow> keeps k (with_int g f)"
  by (auto simp: with_int_def keeps_raise split: option.splits)

lemma keeps_with_output [keeps_intros]: "(\<And>out. keeps k (f out)) \<Longrightarrow> keeps k (with_output E cmd f)"
  by (auto simp: with_output_def keeps_raise split: option.splits)

lemma keeps_if [keeps_intros]: "keeps k f \<Longrightarrow> keeps k g \<Longrightarrow> keeps k (if c then f else g)"
  by simp

lemma keeps_case_option [keeps_intros]:
  "keeps k a \<Longrightarrow> (\<And>y. keeps k (b y)) \<Longrightarrow> keeps k (case x of None \<Rightarrow> a | Some y \<Rightarrow> b y)"
  by (simp split: option.splits)

lemma keeps_case_sum [keeps_intros]:
  "(\<And>e. keeps k (a e)) \<Longrightarrow> (\<And>y. keeps k (b y)) \<Longrightarrow> keeps k (case x of Inl e \<Rightarrow> a e | Inr y \<Rightarrow> b y)"
  by (simp split: sum.splits)

lemma keeps_case_prod [keeps_intros]:
  "(\<And>a b. keeps k (f a b)) \<Longrightarrow> keeps k (case p of (a, b) \<Rightarrow> f a b)"
  by (simp split: prod.splits)

lemma keeps_case_list [keeps_intros]:
  "keeps k a \<Longrightarrow> (\<And>y ys. keeps k (b y ys)) \<Longrightarrow> keeps k (case x of [] \<Rightarrow> a | y # ys \<Rightarrow> b y ys)"
  by (simp split: list.splits)

lemma keeps_case_bool [keeps_intros]:
  "keeps k a \<Longrightarrow> keeps k b \<Longrightarrow> keeps k (case x of True \<Rightarrow> a | False \<Rightarrow> b)"
  by (simp split: bool.splits)

section \<open>No probe writes \<^verbatim>\<open>gpu_model\<close>\<close>

lemma keeps_system_info: "keeps ''gpu_model'' (detect_system_info L E)"
  unfolding detect_system_info_def Let_def
  by (auto intro!: keeps_intros)

lemma keeps_processor: "keeps ''gpu_model'' (detect_processor L E)"
  unfolding detect_processor_def Let_def
  by (auto intro!: keeps_intros)

lemma keeps_memory: "keeps ''gpu_model'' (detect_memory L E)"
  unfolding detect_memory_def Let_def ram_size_step_def slots_step_def
  by (auto intro!: keeps_intros)

lemma keeps_edid_loop: "keeps ''gpu_model'' (edid_loop L E fs)"
  by (induction fs) (auto intro!: keeps_intros simp: Let_def)

lemma keeps_display: "keeps ''gpu_model'' (detect_display L E)"
  unfolding detect_display_def Let_def
  by (auto intro!: keeps_intros keeps_edid_loop)

lemma keeps_graphics: "keeps ''gpu_model'' (detect_graphics L E)"
  unfolding detect_graphics_def Let_def gpu_type_step_def gpu_model_step_def
  by (auto intro!: keeps_intros)

lemma keeps_storage: "keeps ''gpu_model'' (detect_storage L E)"
  unfolding detect_storage_def record_storage_def Let_def report_capacity_def emmc_step_def
    controller_step_def confidence_step_def
  by (auto intro!: keeps_intros)

lemma keeps_battery: "keeps ''gpu_model'' (detect_battery L E)"
  unfolding detect_battery_def Let_def mah_step_def
  by (auto intro!: keeps_intros)

lemma keeps_network: "keeps ''gpu_model'' (detect_network L E)"
  unfolding detect_network_def Let_def
  by (auto intro!: keeps_intros)

lemma keeps_usb_ports: "keeps ''gpu_model'' (detect_usb_ports L E)"
  unfolding detect_usb_ports_def Let_def
  by (auto intro!: keeps_intros)

lemma keeps_webcam: "keeps ''gpu_model'' (detect_webcam L E)"
  unfolding detect_webcam_def Let_def
  by (auto intro!: keeps_intros)

lemma keeps_detect_all: "keeps ''gpu_model'' (detect_all L E)"
  unfolding detect_all_def
  by (auto intro!: keeps_seq keeps_system_info keeps_processor keeps_memory keeps_display
        keeps_graphics keeps_storage keeps_battery keeps_network keeps_usb_ports keeps_webcam)

lemma prompt_keeps_ask_raw: "k \<noteq> kr \<Longrightarrow> prompt_keeps kr kb (ask (\<lambda>a. set_raw k (f a)))"
  by (auto simp: prompt_keeps_def ask_def set_raw_def set_item_def update_conv' split: list.splits)

lemma prompt_keeps_ask_bestbuy: "k \<noteq> kb \<Longrightarrow> prompt_keeps kr kb (ask (\<lambda>a. set_bestbuy k (f a)))"
  by (auto simp: prompt_keeps_def ask_def set_bestbuy_def set_item_def update_conv' split: list.splits)

lemma prompt_keeps_bind:
  "prompt_keeps kr kb p \<Longrightarrow> prompt_keeps kr kb q \<Longrightarrow> prompt_keeps kr kb (\<lambda>s. Option.bind (p s) q)"
  unfolding prompt_keeps_def
  by (auto simp: bind_eq_Some_conv) (metis, metis)

lemma prompt_keeps_screen_size:
  "kr \<noteq> ''screen_size_inches'' \<Longrightarrow> prompt_keeps kr kb (prompt_screen_size L)"
  using prompt_keeps_ask_raw [of "''screen_size_inches''" kr kb]
  by (auto simp: prompt_keeps_def prompt_screen_size_def split: if_splits)

lemma prompt_keeps_touchscreen:
  "kr \<noteq> ''has_touchscreen'' \<Longrightarrow> prompt_keeps kr kb prompt_touchscreen"
  using prompt_keeps_ask_raw [of "''has_touchscreen''" kr kb]
  by (auto simp: prompt_keeps_def prompt_touchscreen_def split: if_splits)

lemma prompt_manual_fields_bind:
  "prompt_manual_fields L =
     (\<lambda>s. Option.bind (Option.bind (Option.bind (Option.bind (Option.bind (Option.bind
        (prompt_screen_size L s)
        (ask (\<lambda>a. set_bestbuy ''_KeyboardLanguage_24678_CAT_1002_EN'' (PStr (keyboard_language (strip a))))))
        (ask (\<lambda>a. set_bestbuy ''_BacklitKeyboard_24680_CAT_1002_EN'' (yes_if_y a))))
        prompt_touchscreen)
        (ask (\<lambda>a. set_bestbuy ''_ConvertibleHybridDisplay_36185_CAT_1002_EN'' (yes_if_y a))))
        (ask (\<lambda>a. set_bestbuy ''_Colour_5105_CAT_1002_EN'' (PStr (strip a)))))
        (ask (\<lambda>a. set_bestbuy ''_ProductCondition_20257570_CAT_1002_EN'' (PStr (product_condition (strip a))))))"
  by (rule ext) (simp add: prompt_manual_fields_def split: Option.bind_splits)

lemma prompt_keeps_manual_fields:
  "prompt_keeps ''gpu_model'' ''_GraphicsCard_15196_CAT_1002_EN'' (prompt_manual_fields L)"
  unfolding prompt_manual_fields_bind
  by (intro prompt_keeps_bind prompt_keeps_screen_size prompt_keeps_touchscreen
        prompt_keeps_ask_bestbuy) simp_all

lemma not_has_key: "map_of d k = None \<Longrightarrow> \<not> has_key d k \<and> k \<notin> keys d"
  by (simp add: has_key_def keys_def map_of_eq_None_iff)

text \<open>
  Claim C3. For every run of the detector, whatever the machine answers, the raw bag never
  holds the key \<^verbatim>\<open>gpu_model\<close>, also when an exception cuts the detection short; so the
  attribute \<^verbatim>\<open>_GraphicsCard_15196_CAT_1002_EN\<close> is empty and pruned from the mapped
  attribute set, and after the prompt the first branch of \<^verbatim>\<open>extract_integrated_gpu\<close>
  and of \<^verbatim>\<open>extract_dedicated_gpu\<close> is not taken on the detector's data.
\<close>

theorem gpu_model_never_set:
  "''gpu_model'' \<notin> keys (fst (detect_all L E ([], None)))
   \<and> map_of (map_to_bestbuy_fields L (fst (detect_all L E ([], None))))
        ''_GraphicsCard_15196_CAT_1002_EN'' = None
   \<and> (\<forall>D. detect_and_prompt L E = Inr D \<longrightarrow>
          ''gpu_model'' \<notin> keys (raw_data D)
          \<and> map_of (bestbuy_data D) ''_GraphicsCard_15196_CAT_1002_EN'' = None
          \<and> \<not> integrated_fast_path (raw_data D)
          \<and> \<not> dedicated_fast_path (raw_data D))"
proof -
  let ?raw = "fst (detect_all L E ([], None))"
  have raw: "map_of ?raw ''gpu_model'' = None"
    using keeps_detect_all [of L E] by (simp add: keeps_def)
  have card: "map_of (map_to_bestbuy_fields L ?raw) ''_GraphicsCard_15196_CAT_1002_EN'' = None"
    using raw by (simp add: bestbuy_lookup bestbuy_literal_def get_or_def)
  have "''gpu_model'' \<notin> keys (raw_data D)
          \<and> map_of (bestbuy_data D) ''_GraphicsCard_15196_CAT_1002_EN'' = None
          \<and> \<not> integrated_fast_path (raw_data D)
          \<and> \<not> dedicated_fast_path (raw_data D)"
    if D: "detect_and_prompt L E = Inr D" for D
  proof -
    from D obtain a where
      p: "prompt_manual_fields L (\<lparr>raw_data = ?raw, bestbuy_data = map_to_bestbuy_fields L ?raw\<rparr>, console E)
            = Some (D, a)"
      by (auto simp: detect_and_prompt_def split: prod.splits option.splits)
    from prompt_keeps_manual_fields [of L] p
    have "map_of (raw_data D) ''gpu_model'' = None"
      and "map_of (bestbuy_data D) ''_GraphicsCard_15196_CAT_1002_EN'' = None"
      unfolding prompt_keeps_def using raw card by fastforce+
    then show ?thesis
      by (simp add: not_has_key integrated_fast_path_def dedicated_fast_path_def)
  qed
  with raw card show ?thesis by (simp add: not_has_key)
qed

theorem gpu_model_never_set_witness:
  "(\<exists>D. detect_and_prompt sample_lib sample_env = Inr D
        \<and> get (raw_data D) ''gpu_type'' = PStr ''Dedicated or Discrete GPU''
        \<and> get (raw_data D) ''dedicated_gpu_model'' = PStr ''NVIDIA GeForce MX150''
        \<and> ''gpu_model'' \<notin> keys (raw_data D)
        \<and> map_of (bestbuy_data D) ''_GraphicsCard_15196_CAT_1002_EN'' = None
        \<and> \<not> dedicated_fast_path (raw_data D))"
proof -
  obtain D where D: "detect_and_prompt sample_lib sample_env = Inr D"
    and t: "get (raw_data D) ''gpu_type'' = PStr ''Dedicated or Discrete GPU''"
    and m: "get (raw_data D) ''dedicated_gpu_model'' = PStr ''NVIDIA GeForce MX150''"
  proof -
    have "case detect_and_prompt sample_lib sample_env of
            Inl e \<Rightarrow> False
          | Inr D \<Rightarrow> get (raw_data D) ''gpu_type'' = PStr ''Dedicated or Discrete GPU''
                     \<and> get (raw_data D) ''dedicated_gpu_model'' = PStr ''NVIDIA GeForce MX150''"
      by code_simp
    then show ?thesis using that by (auto split: sum.splits)
  qed
  from gpu_model_never_set [of sample_lib sample_env] D
  have "''gpu_model'' \<notin> keys (raw_data D)
        \<and> map_of (bestbuy_data D) ''_GraphicsCard_15196_CAT_1002_EN'' = None
        \<and> \<not> dedicated_fast_path (raw_data D)"
    by blast
  with D t m show ?thesis by blast
qed

section \<open>Reading the bag after a sequence of steps\<close>

lemma put_ok: "put k v (b, None) = (set_item k v b, None)"
  by (simp add: put_def)

lemma get_set_item: "get (set_item k v b) k' = (if k' = k then v else get b k')"
  by (simp add: get_def get_or_def set_item_def update_conv')

lemma keepsD: "keeps k f \<Longrightarrow> get (fst (f s)) k = get (fst s) k"
proof -
  assume "keeps k f"
  then have "map_of (fst (f s)) k = map_of (fst s) k"
    unfolding keeps_def by blast
  then show ?thesis by (simp add: get_def get_or_def)
qed

lemma has_key_get: "\<not> has_key b k \<Longrightarrow> get b k = PNone"
  by (simp add: has_key_def get_def get_or_def)

section \<open>Graphics: the type of GPU\<close>

lemma keeps_gpu_model_step:
  "k \<noteq> ''integrated_gpu_model'' \<Longrightarrow> k \<noteq> ''dedicated_gpu_model'' \<Longrightarrow> keeps k (gpu_model_step L line)"
  unfolding gpu_model_step_def Let_def
  by (auto intro!: keeps_intros)

lemma keeps_gpu_models: "keeps ''gpu_type'' (seq (map (gpu_model_step L) gpu_lines))"
  by (auto intro!: keeps_seq keeps_gpu_model_step)

lemma gpu_type_after:
  "get (fst (detect_graphics L E (b, None))) ''gpu_type'' =
     (let gpu_lines = gpu_lines_of (run_command E ''lspci'') in
      if has_nvidia gpu_lines \<or> has_amd_discrete gpu_lines then PStr ''Dedicated or Discrete GPU''
      else if has_intel gpu_lines then PStr ''Integrated GPU''
      else get b ''gpu_type'')"
proof -
  let ?gl = "gpu_lines_of (run_command E ''lspci'')"
  let ?b1 = "set_item ''lspci'' (PStr (run_command E ''lspci'')) b"
  have none: "\<not> list_ex P []" for P :: "string \<Rightarrow> bool" by simp
  show ?thesis
  proof (cases "?gl = []")
    case True
    then show ?thesis
      by (simp add: detect_graphics_def Let_def seq_Cons seq_Nil put_ok skip_def get_set_item
            has_nvidia_def has_amd_discrete_def has_intel_def)
  next
    case False
    let ?b2 = "set_item ''gpus'' (PList (map PStr ?gl)) ?b1"
    have "detect_graphics L E (b, None) =
            seq (map (gpu_model_step L) ?gl) (gpu_type_step ?gl (?b2, None))"
      using False by (simp add: detect_graphics_def Let_def seq_Cons seq_Nil put_ok)
    then have "get (fst (detect_graphics L E (b, None))) ''gpu_type'' =
            get (fst (gpu_type_step ?gl (?b2, None))) ''gpu_type''"
      by (simp add: keepsD [OF keeps_gpu_models])
    then show ?thesis
      by (simp add: gpu_type_step_def put_ok skip_def get_set_item Let_def)
  qed
qed

text \<open>
  Claim C7. For every list of detected GPU lines, if some line matches NVIDIA or discrete AMD
  (the substring tests of \<^verbatim>\<open>has_nvidia\<close> and \<^verbatim>\<open>has_amd_discrete\<close>),
  \<^verbatim>\<open>detect_graphics\<close> sets \<^verbatim>\<open>gpu_type\<close> to "Dedicated or Discrete GPU", whether
  or not a line contains "Intel"; starting from a bag without \<^verbatim>\<open>gpu_type\<close>, the type is
  "Integrated GPU" exactly when no line matches NVIDIA or discrete AMD and some line matches
  Intel.
\<close>

theorem gpu_type_precedence:
  "(has_nvidia (gpu_lines_of (run_command E ''lspci''))
      \<or> has_amd_discrete (gpu_lines_of (run_command E ''lspci'')) \<longrightarrow>
      get (fst (detect_graphics L E (b, None))) ''gpu_type'' = PStr ''Dedicated or Discrete GPU'')
   \<and> (\<not> has_key b ''gpu_type'' \<longrightarrow>
        (get (fst (detect_graphics L E (b, None))) ''gpu_type'' = PStr ''Integrated GPU''
         \<longleftrightarrow> \<not> has_nvidia (gpu_lines_of (run_command E ''lspci''))
             \<and> \<not> has_amd_discrete (gpu_lines_of (run_command E ''lspci''))
             \<and> has_intel (gpu_lines_of (run_command E ''lspci''))))"
  by (auto simp: gpu_type_after Let_def has_key_get)

theorem gpu_type_precedence_witness:
  "has_nvidia (gpu_lines_of (run_command sample_env ''lspci''))
   \<and> has_intel (gpu_lines_of (run_command sample_env ''lspci''))
   \<and> get (fst (detect_graphics sample_lib sample_env ([], None))) ''gpu_type''
        = PStr ''Dedicated or Discrete GPU''"
proof -
  have n: "has_nvidia (gpu_lines_of (run_command sample_env ''lspci''))"
    by code_simp
  have i: "has_intel (gpu_lines_of (run_command sample_env ''lspci''))"
    by code_simp
  from gpu_type_precedence [of sample_env sample_lib "[]"] n
  have "get (fst (detect_graphics sample_lib sample_env ([], None))) ''gpu_type''
        = PStr ''Dedicated or Discrete GPU''"
    by blast
  with n i show ?thesis by simp
qed

section \<open>Memory: snapping to a standard size\<close>











section \<open>Storage: kept devices and totals\<close>

lemma keeps_emmc_step: "k \<noteq> ''has_emmc_storage'' \<Longrightarrow> keeps k (emmc_step E)"
  unfolding emmc_step_def by (auto intro!: keeps_intros)

lemma keeps_controller_step:
  "k \<noteq> ''lspci_storage'' \<Longrightarrow> k \<noteq> ''storage_controller_type'' \<Longrightarrow> keeps k (controller_step E)"
  unfolding controller_step_def by (auto intro!: keeps_intros)

lemma keeps_confidence_step: "k \<noteq> ''storage_soldered_confidence'' \<Longrightarrow> keeps k (confidence_step totals)"
  unfolding confidence_step_def by (auto intro!: keeps_intros)

lemma keeps_storage_tail:
  "k \<in> {''storage_devices'', ''ssd_capacity_gb'', ''hdd_capacity_gb''} \<Longrightarrow>
   keeps k (seq [emmc_step E, controller_step E, confidence_step totals])"
  by (auto intro!: keeps_seq keeps_emmc_step keeps_controller_step keeps_confidence_step)

lemma keeps_report_capacity:
  "k \<noteq> ''ssd_capacity_gb'' \<Longrightarrow> k \<noteq> ''hdd_capacity_gb'' \<Longrightarrow> keeps k (report_capacity totals)"
  unfolding report_capacity_def by (auto intro!: keeps_intros)

lemma keeps_after_devices:
  "keeps ''storage_devices''
     (case total_capacity L ds (Fin 0, Fin 0) of
        Inl e \<Rightarrow> raise e
      | Inr totals \<Rightarrow> seq [report_capacity totals, emmc_step E, controller_step E, confidence_step totals])"
  by (auto intro!: keeps_intros keeps_report_capacity keeps_emmc_step keeps_controller_step
        keeps_confidence_step)

lemma keeps_hdd_report:
  "keeps ''ssd_capacity_gb''
     (if flt (Fin 0) x
      then (case round_int x of Inl e \<Rightarrow> raise e | Inr n \<Rightarrow> put ''hdd_capacity_gb'' (PInt n))
      else skip)"
  by (auto intro!: keeps_intros)

lemma record_storage_devices:
  "get (fst (record_storage L E (Inr ds) (b, None))) ''storage_devices'' = PList (map device_val ds)"
proof -
  have "seq [f, g] s = g (f s)" for f g :: "st \<Rightarrow> st" and s
    by (simp add: seq_Cons seq_Nil)
  then show ?thesis
    unfolding record_storage_def sum.case
    by (simp only: keepsD [OF keeps_after_devices]) (simp add: put_ok get_set_item)
qed

lemma record_storage_ssd:
  assumes tot: "total_capacity L ds (Fin 0, Fin 0) = Inr totals"
    and ssd: "fst totals = Fin q" "0 < q"
  shows "get (fst (record_storage L E (Inr ds) (b, None))) ''ssd_capacity_gb'' = PInt (py_round q)"
proof -
  let ?b = "set_item ''storage_devices'' (PList (map device_val ds)) b"
  let ?hdd = "if flt (Fin 0) (snd totals)
      then (case round_int (snd totals) of Inl e \<Rightarrow> raise e | Inr n \<Rightarrow> put ''hdd_capacity_gb'' (PInt n))
      else skip"
  have run: "record_storage L E (Inr ds) (b, None) =
      seq [emmc_step E, controller_step E, confidence_step totals]
        (?hdd (set_item ''ssd_capacity_gb'' (PInt (py_round q)) ?b, None))"
    using tot ssd
    by (simp add: record_storage_def report_capacity_def seq_Cons seq_Nil put_ok)
  show ?thesis
    unfolding run
    by (subst keepsD [OF keeps_storage_tail], simp, subst keepsD [OF keeps_hdd_report])
       (simp add: get_set_item)
qed

lemma record_storage_hdd:
  assumes tot: "total_capacity L ds (Fin 0, Fin 0) = Inr totals"
    and hdd: "snd totals = Fin q" "0 < q"
    and ssd: "fst totals \<noteq> PosInf"
  shows "get (fst (record_storage L E (Inr ds) (b, None))) ''hdd_capacity_gb'' = PInt (py_round q)"
proof -
  let ?b = "set_item ''storage_devices'' (PList (map device_val ds)) b"
  let ?b' = "if flt (Fin 0) (fst totals)
             then set_item ''ssd_capacity_gb'' (PInt (py_round (case fst totals of Fin a \<Rightarrow> a | _ \<Rightarrow> 0))) ?b
             else ?b"
  have first: "(if flt (Fin 0) (fst totals)
      then (case round_int (fst totals) of Inl e \<Rightarrow> raise e | Inr n \<Rightarrow> put ''ssd_capacity_gb'' (PInt n))
      else skip) (?b, None) = (?b', None)"
    using ssd by (cases "fst totals") (simp_all add: put_ok skip_def)
  have run: "record_storage L E (Inr ds) (b, None) =
      seq [emmc_step E, controller_step E, confidence_step totals]
        (set_item ''hdd_capacity_gb'' (PInt (py_round q)) ?b', None)"
    using tot hdd
    by (simp only: record_storage_def sum.case seq_Cons seq_Nil put_ok report_capacity_def first)
       (simp add: put_ok)
  show ?thesis
    unfolding run by (subst keepsD [OF keeps_storage_tail]) (simp_all add: get_set_item)
qed

lemma detect_storage_run:
  "detect_storage L E s =
     record_storage L E (scan_devices L E (drop 1 (split_lines (run_command E lsblk_cmd))))
       (put ''lsblk'' (PStr (run_command E lsblk_cmd)) s)"
  by (simp add: detect_storage_def Let_def seq_Cons seq_Nil lsblk_cmd_def)

lemma size_gb_256G: "size_gb L ''256G'' = Inr (Some (Fin 256))"
  by code_simp

lemma size_gb_1T: "size_gb L ''1T'' = Inr (Some (Fin 1000))"
  by code_simp

lemma total_256G_1T:
  "fadd (round_double 256) (Fin 1000) = Fin 1256"
  "fadd (round_double 1000) (Fin 256) = Fin 1256"
  by code_simp+

lemma py_round_1256: "py_round 1256 = 1256"
  by code_simp

text \<open>
  Claim C2, amended. For a storage device list of two devices with the sizes "256G" and
  "1T", both kept (not removable, not under 32 GB) and classified as SSD,
  \<^verbatim>\<open>detect_storage\<close> records a total SSD capacity of 1256 GB: the multipliers are
  1 for G and 1000 for T.
\<close>

theorem two_ssd_total:
  assumes scan: "scan_devices L E (drop 1 (split_lines (run_command E lsblk_cmd))) = Inr [d1, d2]"
    and sizes: "(dev_size d1 = ''256G'' \<and> dev_size d2 = ''1T'') \<or> (dev_size d1 = ''1T'' \<and> dev_size d2 = ''256G'')"
    and kinds: "dev_kind d1 = ''SSD''" "dev_kind d2 = ''SSD''"
  shows "get (fst (detect_storage L E (b, None))) ''ssd_capacity_gb'' = PInt 1256"
proof -
  have "total_capacity L [d1, d2] (Fin 0, Fin 0) = Inr (Fin 1256, Fin 0)"
    using sizes kinds by (auto simp: size_gb_256G size_gb_1T total_256G_1T)
  from record_storage_ssd [OF this, of 1256 E] show ?thesis
    unfolding detect_storage_run scan by (simp add: put_ok py_round_1256)
qed

text \<open>
  Claim C2, as stated, says the total is 1280 GB. On the sample machine the kept devices are
  exactly a 256G and a 1T disk, both SSD, and the recorded total is 1256, not 1280.
\<close>

theorem two_ssd_total_counterexample:
  "get (fst (detect_storage sample_lib sample_env ([], None))) ''storage_devices''
     = PList [device_val \<lparr>dev_name = ''sda'', dev_size = ''256G'', dev_kind = ''SSD''\<rparr>,
              device_val \<lparr>dev_name = ''nvme0n1'', dev_size = ''1T'', dev_kind = ''SSD''\<rparr>]
   \<and> get (fst (detect_storage sample_lib sample_env ([], None))) ''ssd_capacity_gb'' = PInt 1256
   \<and> get (fst (detect_storage sample_lib sample_env ([], None))) ''ssd_capacity_gb'' \<noteq> PInt 1280"
  by code_simp

theorem two_ssd_total_witness:
  "scan_devices sample_lib sample_env (drop 1 (split_lines (run_command sample_env lsblk_cmd)))
     = Inr [\<lparr>dev_name = ''sda'', dev_size = ''256G'', dev_kind = ''SSD''\<rparr>,
            \<lparr>dev_name = ''nvme0n1'', dev_size = ''1T'', dev_kind = ''SSD''\<rparr>]
   \<and> get (fst (detect_storage sample_lib sample_env ([], None))) ''ssd_capacity_gb'' = PInt 1256"
proof -
  have s: "scan_devices sample_lib sample_env (drop 1 (split_lines (run_command sample_env lsblk_cmd)))
     = Inr [\<lparr>dev_name = ''sda'', dev_size = ''256G'', dev_kind = ''SSD''\<rparr>,
            \<lparr>dev_name = ''nvme0n1'', dev_size = ''1T'', dev_kind = ''SSD''\<rparr>]"
    by code_simp
  from two_ssd_total [OF s, of "[]"] s show ?thesis by simp
qed

lemma scan_devices_skips:
  assumes "4 \<le> length (split_ws line)" "split_ws line ! 2 = ''disk''"
    and "size_gb L (split_ws line ! 1) = Inr (Some gb)"
    and "is_removable E (split_ws line ! 0) \<or> flt gb (Fin 32)"
  shows "scan_devices L E (pre @ line # post) = scan_devices L E (pre @ post)"
proof (induction pre)
  case Nil
  from assms show ?case by (auto simp: Let_def)
next
  case (Cons l pre)
  show ?case
    unfolding append_Cons scan_devices.simps Cons.IH by (rule refl)
qed

lemma scan_devices_kept:
  "scan_devices L E ls = Inr ds \<Longrightarrow> d \<in> set ds \<Longrightarrow> size_gb L (dev_size d) = Inr (Some gb) \<Longrightarrow>
   \<not> is_removable E (dev_name d) \<and> \<not> flt gb (Fin 32)"
proof (induction ls arbitrary: ds)
  case Nil
  then show ?case by simp
next
  case (Cons l ls)
  show ?case
  proof (cases "4 \<le> length (split_ws l) \<and> split_ws l ! 2 = ''disk''")
    case False
    with Cons show ?thesis by (auto simp: Let_def)
  next
    case True
    with Cons.prems Cons.IH show ?thesis
      by (auto simp: Let_def split: sum.splits option.splits if_splits)
  qed
qed

text \<open>
  Claim C8. Take a line of the device listing that names a disk whose size text parses, the
  device being removable or its size, as the double the program computes, less than 32 GB.
  The first loop of \<^verbatim>\<open>detect_storage\<close> gives what it gives without that line, and the
  whole run equals the recording of the scan of the other lines: the stored device list,
  both capacity totals and every later write are computed from those lines alone (the raw
  text of the listing, stored under \<^verbatim>\<open>lsblk\<close>, is the only entry that shows the line).
  So no device of that name and size is in the stored device list, the list holds the
  devices kept from the other lines, and a finite positive total is the rounded sum of
  their sizes.
\<close>

theorem excluded_device_leaves_no_trace:
  assumes parts: "parts = split_ws line" "4 \<le> length parts" "parts ! 2 = ''disk''"
    and parses: "size_gb L (parts ! 1) = Inr (Some gb)"
    and excluded: "is_removable E (parts ! 0) \<or> flt gb (Fin 32)"
    and listing: "drop 1 (split_lines (run_command E lsblk_cmd)) = pre @ line # post"
  shows "scan_devices L E (pre @ line # post) = scan_devices L E (pre @ post)
     \<and> detect_storage L E s
         = record_storage L E (scan_devices L E (pre @ post))
             (put ''lsblk'' (PStr (run_command E lsblk_cmd)) s)
     \<and> (\<forall>ds. scan_devices L E (pre @ post) = Inr ds \<longrightarrow>
          (\<forall>d \<in> set ds. \<not> (dev_name d = parts ! 0 \<and> dev_size d = parts ! 1))
          \<and> get (fst (detect_storage L E (b, None))) ''storage_devices'' = PList (map device_val ds)
          \<and> (\<forall>totals q. total_capacity L ds (Fin 0, Fin 0) = Inr totals \<and> 0 < q \<longrightarrow>
                (fst totals = Fin q \<longrightarrow>
                   get (fst (detect_storage L E (b, None))) ''ssd_capacity_gb'' = PInt (py_round q))
                \<and> (snd totals = Fin q \<and> fst totals \<noteq> PosInf \<longrightarrow>
                   get (fst (detect_storage L E (b, None))) ''hdd_capacity_gb'' = PInt (py_round q))))"
proof -
  have skip: "scan_devices L E (pre @ line # post) = scan_devices L E (pre @ post)"
    using assms by (intro scan_devices_skips) auto
  have run: "detect_storage L E t
         = record_storage L E (scan_devices L E (pre @ post))
             (put ''lsblk'' (PStr (run_command E lsblk_cmd)) t)" for t
    by (simp only: detect_storage_run listing skip)
  have rest: "(\<forall>d \<in> set ds. \<not> (dev_name d = parts ! 0 \<and> dev_size d = parts ! 1))
          \<and> get (fst (detect_storage L E (b, None))) ''storage_devices'' = PList (map device_val ds)
          \<and> (\<forall>totals q. total_capacity L ds (Fin 0, Fin 0) = Inr totals \<and> 0 < q \<longrightarrow>
                (fst totals = Fin q \<longrightarrow>
                   get (fst (detect_storage L E (b, None))) ''ssd_capacity_gb'' = PInt (py_round q))
                \<and> (snd totals = Fin q \<and> fst totals \<noteq> PosInf \<longrightarrow>
                   get (fst (detect_storage L E (b, None))) ''hdd_capacity_gb'' = PInt (py_round q)))"
    if scan: "scan_devices L E (pre @ post) = Inr ds" for ds
  proof -
    have "\<not> (dev_name d = parts ! 0 \<and> dev_size d = parts ! 1)" if "d \<in> set ds" for d
      using scan_devices_kept [OF scan that, of gb] parses excluded by auto
    moreover have "get (fst (detect_storage L E (b, None))) ''storage_devices'' = PList (map device_val ds)"
      by (simp add: run scan put_ok record_storage_devices)
    moreover have "get (fst (detect_storage L E (b, None))) ''ssd_capacity_gb'' = PInt (py_round q)"
      if "total_capacity L ds (Fin 0, Fin 0) = Inr totals" "0 < q" "fst totals = Fin q" for totals q
      using record_storage_ssd [OF that(1) that(3) that(2)] by (simp add: run scan put_ok)
    moreover have "get (fst (detect_storage L E (b, None))) ''hdd_capacity_gb'' = PInt (py_round q)"
      if "total_capacity L ds (Fin 0, Fin 0) = Inr totals" "0 < q" "snd totals = Fin q"
        "fst totals \<noteq> PosInf" for totals q
      using record_storage_hdd [OF that(1) that(3) that(2) that(4)] by (simp add: run scan put_ok)
    ultimately show ?thesis by blast
  qed
  from skip run rest show ?thesis by blast
qed

theorem excluded_device_leaves_no_trace_witness:
  "split_ws ''sdc      16G disk    0'' = [''sdc'', ''16G'', ''disk'', ''0'']
   \<and> size_gb sample_lib ''16G'' = Inr (Some (Fin 16))
   \<and> is_removable rounding_env ''sdc''
   \<and> drop 1 (split_lines (run_command rounding_env lsblk_cmd))
       = [''sda   465.8G disk    0'', ''sdb   447.1G disk    0''] @ ''sdc      16G disk    0''
         # [''nvme0n1 59.6G disk  0'', ''sdd 31.9999999999999999G disk 1'', []]
   \<and> get (fst (detect_storage sample_lib rounding_env ([], None))) ''storage_devices''
       = PList [device_val \<lparr>dev_name = ''sda'', dev_size = ''465.8G'', dev_kind = ''SSD''\<rparr>,
                device_val \<lparr>dev_name = ''sdb'', dev_size = ''447.1G'', dev_kind = ''SSD''\<rparr>,
                device_val \<lparr>dev_name = ''nvme0n1'', dev_size = ''59.6G'', dev_kind = ''SSD''\<rparr>,
                device_val \<lparr>dev_name = ''sdd'', dev_size = ''31.9999999999999999G'', dev_kind = ''HDD''\<rparr>]
   \<and> get (fst (detect_storage sample_lib rounding_env ([], None))) ''ssd_capacity_gb'' = PInt 973
   \<and> get (fst (detect_storage sample_lib rounding_env ([], None))) ''hdd_capacity_gb'' = PInt 32"
proof -
  let ?ds = "[\<lparr>dev_name = ''sda'', dev_size = ''465.8G'', dev_kind = ''SSD''\<rparr>,
              \<lparr>dev_name = ''sdb'', dev_size = ''447.1G'', dev_kind = ''SSD''\<rparr>,
              \<lparr>dev_name = ''nvme0n1'', dev_size = ''59.6G'', dev_kind = ''SSD''\<rparr>,
              \<lparr>dev_name = ''sdd'', dev_size = ''31.9999999999999999G'', dev_kind = ''HDD''\<rparr>]"
  have p: "split_ws ''sdc      16G disk    0'' = [''sdc'', ''16G'', ''disk'', ''0'']"
    by code_simp
  have g: "size_gb sample_lib ''16G'' = Inr (Some (Fin 16))"
    by code_simp
  have r: "is_removable rounding_env ''sdc''"
    by code_simp
  have out: "drop 1 (split_lines (run_command rounding_env lsblk_cmd))
       = [''sda   465.8G disk    0'', ''sdb   447.1G disk    0''] @ ''sdc      16G disk    0''
         # [''nvme0n1 59.6G disk  0'', ''sdd 31.9999999999999999G disk 1'', []]"
    by code_simp
  have scan: "scan_devices sample_lib rounding_env
                ([''sda   465.8G disk    0'', ''sdb   447.1G disk    0'']
                 @ [''nvme0n1 59.6G disk  0'', ''sdd 31.9999999999999999G disk 1'', []]) = Inr ?ds"
    by code_simp
  have tot: "total_capacity sample_lib ?ds (Fin 0, Fin 0)
               = Inr (Fin (8554200464097281 / 8796093022208), Fin 32)"
    by code_simp
  have rnd: "py_round (8554200464097281 / 8796093022208) = 973" "py_round 32 = 32"
    by code_simp+
  have pos: "(0::rat) < 8554200464097281 / 8796093022208" "(0::rat) < 32"
    by simp_all
  note kept = excluded_device_leaves_no_trace
    [where parts = "[''sdc'', ''16G'', ''disk'', ''0'']" and line = "''sdc      16G disk    0''"
       and L = sample_lib and gb = "Fin 16" and E = rounding_env
       and pre = "[''sda   465.8G disk    0'', ''sdb   447.1G disk    0'']"
       and post = "[''nvme0n1 59.6G disk  0'', ''sdd 31.9999999999999999G disk 1'', []]"
       and s = "([], None)" and b = "[]",
     THEN conjunct2, THEN conjunct2, THEN spec, THEN mp, OF _ _ _ _ _ out scan]
  have kept': "(\<forall>d \<in> set ?ds. \<not> (dev_name d = [''sdc'', ''16G'', ''disk'', ''0''] ! 0
                                  \<and> dev_size d = [''sdc'', ''16G'', ''disk'', ''0''] ! 1))
     \<and> get (fst (detect_storage sample_lib rounding_env ([], None))) ''storage_devices''
          = PList (map device_val ?ds)
     \<and> (\<forall>totals q. total_capacity sample_lib ?ds (Fin 0, Fin 0) = Inr totals \<and> 0 < q \<longrightarrow>
            (fst totals = Fin q \<longrightarrow>
               get (fst (detect_storage sample_lib rounding_env ([], None))) ''ssd_capacity_gb''
                 = PInt (py_round q))
            \<and> (snd totals = Fin q \<and> fst totals \<noteq> PosInf \<longrightarrow>
               get (fst (detect_storage sample_lib rounding_env ([], None))) ''hdd_capacity_gb''
                 = PInt (py_round q)))"
    using p g r by (intro kept) simp_all
  note devices = kept' [THEN conjunct2, THEN conjunct1]
  note totals = kept' [THEN conjunct2, THEN conjunct2, THEN spec, THEN spec, THEN mp]
  have ssd: "get (fst (detect_storage sample_lib rounding_env ([], None))) ''ssd_capacity_gb'' = PInt 973"
    using totals [OF conjI [OF tot pos(1)], THEN conjunct1] rnd(1) by simp
  have hdd: "get (fst (detect_storage sample_lib rounding_env ([], None))) ''hdd_capacity_gb'' = PInt 32"
    using totals [OF conjI [OF tot pos(2)], THEN conjunct2] rnd(2) by simp
  from p g r out devices ssd hdd show ?thesis
    by (simp only: list.map simp_thms)
qed

section \<open>Secrets, and the fallback of \<^verbatim>\<open>main\<close>\<close>

lemma bestbuy_only_name:
  "replace ''.json'' ''_bestbuy_only.json'' default_output_file = ''laptop_hardware_data_bestbuy_only.json''"
  by code_simp

lemma saved_files:
  "map_of (save_results E D default_output_file fs) ''laptop_hardware_data.json''
     = Some (Full_dump (clock E) (raw_data D) (bestbuy_data D))"
  "map_of (save_results E D default_output_file fs) ''laptop_hardware_data_bestbuy_only.json''
     = Some (Fields_only (bestbuy_data D))"
  by (simp_all add: save_results_def bestbuy_only_name update_conv') (simp_all add: default_output_file_def)

lemma handle_error_saves: "handle_error E D e fs = save_results E D default_output_file fs"
  by (simp add: handle_error_def)

lemma missing_keys_dict:
  "missing_keys (PDict kvs) required =
     Some ((if has_key kvs ''supabase_url'' then [] else [''supabase_url''])
           @ (if has_key kvs ''supabase_anon_key'' then [] else [''supabase_anon_key'']))"
  by (simp add: required_def)

text \<open>
  Claim C9, as stated, has \<^verbatim>\<open>load_secrets\<close> raise a ValueError if and only if the file
  parses and lacks a required key. On a file that exists and on which \<^verbatim>\<open>json.load\<close>
  raises \<^verbatim>\<open>json.JSONDecodeError\<close>, \<^verbatim>\<open>load_secrets\<close> raises that error, which is a
  ValueError, although nothing was parsed.
\<close>

theorem load_secrets_value_error_counterexample:
  "\<not> (\<forall>E p. (\<exists>e. load_secrets E p = Inl e \<and> is_ValueError e)
               \<longleftrightarrow> (\<exists>v m. secrets_files E p = Parsed v \<and> missing_keys v required = Some m \<and> m \<noteq> []))"
proof
  assume a: "\<forall>E p. (\<exists>e. load_secrets E p = Inl e \<and> is_ValueError e)
               \<longleftrightarrow> (\<exists>v m. secrets_files E p = Parsed v \<and> missing_keys v required = Some m \<and> m \<noteq> [])"
  have f: "secrets_files broken_secrets_env ''secrets.json'' = Unreadable JSONDecodeError"
    by (simp add: broken_secrets_env_def)
  then have "load_secrets broken_secrets_env ''secrets.json'' = Inl JSONDecodeError"
    by (simp add: load_secrets_def)
  moreover have "is_ValueError JSONDecodeError"
    by (simp add: is_ValueError_def)
  ultimately have "\<exists>e. load_secrets broken_secrets_env ''secrets.json'' = Inl e \<and> is_ValueError e"
    by blast
  with a have "\<exists>v m. secrets_files broken_secrets_env ''secrets.json'' = Parsed v
                 \<and> missing_keys v required = Some m \<and> m \<noteq> []"
    by blast
  with f show False by simp
qed

text \<open>
  Claim C9, amended. \<^verbatim>\<open>load_secrets\<close> raises FileNotFoundError when the secrets file
  does not exist. When the file is read and parses to a dictionary it raises ValueError if
  and only if one of the keys \<^verbatim>\<open>supabase_url\<close> and \<^verbatim>\<open>supabase_anon_key\<close> is absent,
  and otherwise returns the parsed dictionary unchanged. When \<^verbatim>\<open>open\<close> or
  \<^verbatim>\<open>json.load\<close> raises on the existing file, that exception leaves \<^verbatim>\<open>load_secrets\<close>
  unchanged, whatever its class. In \<^verbatim>\<open>main\<close> every exception of \<^verbatim>\<open>load_secrets\<close>
  is caught and the two local JSON files are written, the remote store being left alone.
\<close>

theorem load_secrets_cases:
  "(secrets_files E p = Missing \<longrightarrow> load_secrets E p = Inl FileNotFoundError)
   \<and> (\<forall>kvs. secrets_files E p = Parsed (PDict kvs) \<longrightarrow>
        (load_secrets E p = Inl ValueError
           \<longleftrightarrow> \<not> (has_key kvs ''supabase_url'' \<and> has_key kvs ''supabase_anon_key''))
        \<and> (has_key kvs ''supabase_url'' \<and> has_key kvs ''supabase_anon_key'' \<longrightarrow>
             load_secrets E p = Inr (PDict kvs)))
   \<and> (\<forall>e. secrets_files E p = Unreadable e \<longrightarrow> load_secrets E p = Inl e)
   \<and> (\<forall>D e. detect_and_prompt L E = Inr D \<and> upload A \<and> supabase_installed E
          \<and> load_secrets E (secrets A) = Inl e \<longrightarrow>
        (\<exists>W'. main L E S A W = Inr W' \<and> service W' = service W
           \<and> local_files W' = save_results E D default_output_file (local_files W)
           \<and> map_of (local_files W') ''laptop_hardware_data.json''
                = Some (Full_dump (clock E) (raw_data D) (bestbuy_data D))
           \<and> map_of (local_files W') ''laptop_hardware_data_bestbuy_only.json''
                = Some (Fields_only (bestbuy_data D))))"
proof (intro conjI allI impI)
  show "load_secrets E p = Inl FileNotFoundError" if "secrets_files E p = Missing"
    using that by (simp add: load_secrets_def)
  show "(load_secrets E p = Inl ValueError)
          = (\<not> (has_key kvs ''supabase_url'' \<and> has_key kvs ''supabase_anon_key''))"
    if "secrets_files E p = Parsed (PDict kvs)" for kvs
    using that by (auto simp: load_secrets_def missing_keys_dict)
  show "load_secrets E p = Inr (PDict kvs)"
    if "secrets_files E p = Parsed (PDict kvs)"
      and "has_key kvs ''supabase_url'' \<and> has_key kvs ''supabase_anon_key''" for kvs
    using that by (auto simp: load_secrets_def missing_keys_dict)
  show "load_secrets E p = Inl e" if "secrets_files E p = Unreadable e" for e
    using that by (simp add: load_secrets_def)
  show "\<exists>W'. main L E S A W = Inr W' \<and> service W' = service W
           \<and> local_files W' = save_results E D default_output_file (local_files W)
           \<and> map_of (local_files W') ''laptop_hardware_data.json''
                = Some (Full_dump (clock E) (raw_data D) (bestbuy_data D))
           \<and> map_of (local_files W') ''laptop_hardware_data_bestbuy_only.json''
                = Some (Fields_only (bestbuy_data D))"
    if "detect_and_prompt L E = Inr D \<and> upload A \<and> supabase_installed E
          \<and> load_secrets E (secrets A) = Inl e" for D e
    using that
    by (simp add: main_def persist_def upload_session_def handle_error_saves saved_files)
qed

theorem load_secrets_cases_witness:
  "load_secrets sample_env ''secrets.json'' = Inl FileNotFoundError
   \<and> load_secrets partial_secrets_env ''secrets.json'' = Inl ValueError
   \<and> load_secrets broken_secrets_env ''secrets.json'' = Inl JSONDecodeError
   \<and> (\<exists>D W'. detect_and_prompt sample_lib partial_secrets_env = Inr D
         \<and> main sample_lib partial_secrets_env no_fail_srv upload_args empty_world = Inr W'
         \<and> service W' = service empty_world
         \<and> map_of (local_files W') ''laptop_hardware_data.json''
              = Some (Full_dump (clock partial_secrets_env) (raw_data D) (bestbuy_data D))
         \<and> map_of (local_files W') ''laptop_hardware_data_bestbuy_only.json''
              = Some (Fields_only (bestbuy_data D)))"
proof -
  note cases_missing = load_secrets_cases
    [of sample_env "''secrets.json''" sample_lib upload_args no_fail_srv empty_world]
  note cases_partial = load_secrets_cases
    [of partial_secrets_env "''secrets.json''" sample_lib upload_args no_fail_srv empty_world]
  note cases_broken = load_secrets_cases
    [of broken_secrets_env "''secrets.json''" sample_lib upload_args no_fail_srv empty_world]
  have m: "secrets_files sample_env ''secrets.json'' = Missing"
    by (simp add: sample_env_def)
  have p: "secrets_files partial_secrets_env ''secrets.json''
             = Parsed (PDict [(''supabase_url'', PStr ''https://db.example'')])"
    by (simp add: partial_secrets_env_def)
  have b: "secrets_files broken_secrets_env ''secrets.json'' = Unreadable JSONDecodeError"
    by (simp add: broken_secrets_env_def)
  have k: "\<not> has_key [(''supabase_url'', PStr ''https://db.example'')] ''supabase_anon_key''"
    by (simp add: has_key_def)
  from cases_missing m have 1: "load_secrets sample_env ''secrets.json'' = Inl FileNotFoundError"
    by blast
  from cases_partial p k have 2: "load_secrets partial_secrets_env ''secrets.json'' = Inl ValueError"
    by blast
  from cases_broken b have 3: "load_secrets broken_secrets_env ''secrets.json'' = Inl JSONDecodeError"
    by blast
  obtain D where D: "detect_and_prompt sample_lib partial_secrets_env = Inr D"
  proof -
    have "case detect_and_prompt sample_lib partial_secrets_env of Inl e \<Rightarrow> False | Inr D \<Rightarrow> True"
      by code_simp
    then show ?thesis using that by (auto split: sum.splits)
  qed
  have u: "upload upload_args" "supabase_installed partial_secrets_env"
    "secrets upload_args = ''secrets.json''"
    by (simp_all add: upload_args_def partial_secrets_env_def sample_env_def)
  from cases_partial D u 2
  have "\<exists>W'. main sample_lib partial_secrets_env no_fail_srv upload_args empty_world = Inr W'
         \<and> service W' = service empty_world
         \<and> map_of (local_files W') ''laptop_hardware_data.json''
              = Some (Full_dump (clock partial_secrets_env) (raw_data D) (bestbuy_data D))
         \<and> map_of (local_files W') ''laptop_hardware_data_bestbuy_only.json''
              = Some (Fields_only (bestbuy_data D))"
    by auto
  with 1 2 3 D show ?thesis by blast
qed

section \<open>The uploader: an existing model\<close>

lemma same_key_sat: "same_model_key md row \<Longrightarrow> list_all (\<lambda>f. sat f row) (model_filters md)"
  by (auto simp: same_model_key_def model_filters_def gpu_filter_def)

lemma sat_same_key: "list_all (\<lambda>f. sat f row) (model_filters md) \<Longrightarrow> same_model_key md row"
  by (auto simp: same_model_key_def model_filters_def gpu_filter_def split: if_splits)

lemma map_of_filter_cols:
  "map_of (filter (\<lambda>kv. fst kv \<in> set cols) row) k = (if k \<in> set cols then map_of row k else None)"
  by (induction row) auto

lemma map_of_filter_col: "map_of (filter (\<lambda>kv. fst kv = c) row) c = map_of row c"
  by (induction row) auto

lemma first_col_select:
  assumes "r \<in> set rows" "list_all (\<lambda>f. sat f r) fs" "\<forall>r \<in> set rows. has_key r ''id''"
  shows "\<exists>r0 \<in> set rows. list_all (\<lambda>f. sat f r0) fs
           \<and> select_rows [''id''] fs rows \<noteq> []
           \<and> first_col (select_rows [''id''] fs rows) ''id'' = Inr (get r0 ''id'')"
proof -
  from assms(1,2) have ne: "filter (\<lambda>row. list_all (\<lambda>f. sat f row) fs) rows \<noteq> []"
    by (auto simp: filter_empty_conv)
  then obtain r0 rest where f: "filter (\<lambda>row. list_all (\<lambda>f. sat f row) fs) rows = r0 # rest"
    by (cases "filter (\<lambda>row. list_all (\<lambda>f. sat f row) fs) rows") auto
  then have "r0 \<in> set (filter (\<lambda>row. list_all (\<lambda>f. sat f row) fs) rows)"
    by simp
  then have r0: "r0 \<in> set rows" "list_all (\<lambda>f. sat f r0) fs"
    by auto
  with assms(3) obtain v where v: "map_of r0 ''id'' = Some v"
    by (auto simp: has_key_def)
  then have "get r0 ''id'' = v"
    by (simp add: get_def get_or_def)
  with f v have "first_col (select_rows [''id''] fs rows) ''id'' = Inr (get r0 ''id'')"
    by (simp add: first_col_def select_rows_def map_of_filter_col)
  moreover from f have "select_rows [''id''] fs rows \<noteq> []"
    by (simp add: select_rows_def)
  ultimately show ?thesis using r0 by blast
qed

text \<open>
  Claim C1, as stated, has the brand as the first key field. The query of the uploader does
  not compare the brand: its first field is the column \<^verbatim>\<open>base_model_name\<close>, filled from
  the raw field \<^verbatim>\<open>model\<close>. After one upload of the sample, the store holds its model
  row and the brand of the sample in the hardware-detail row of that model. A laptop of the
  same brand, CPU, screen size, touchscreen flag and GPU pair under another model name is
  then not found: the upload returns "created", and the model table and the four other
  tables each hold a second row.
\<close>

theorem existing_model_brand_counterexample:
  "get other_model_raw ''brand'' = get sample_raw ''brand''
   \<and> get other_model_raw ''cpu_model'' = get sample_raw ''cpu_model''
   \<and> get other_model_raw ''screen_size_inches'' = get sample_raw ''screen_size_inches''
   \<and> extract_integrated_gpu other_model_raw = extract_integrated_gpu sample_raw
   \<and> extract_dedicated_gpu other_model_raw = extract_dedicated_gpu sample_raw
   \<and> rows_of (db uploaded_once) ''laptop_models'' = [sample_model_row]
   \<and> map (\<lambda>r. (get r ''model_id'', get r ''brand'')) (rows_of (db uploaded_once) ''laptop_hardware_data'')
        = [(PInt 1, get other_model_raw ''brand'')]
   \<and> (\<exists>res R'. upload_to_database no_fail_srv other_model_raw sample_bestbuy uploaded_once = (Inr res, R')
         \<and> status res = ''created'' \<and> status res \<noteq> ''exists''
         \<and> variant_id res \<noteq> PNone \<and> shop_sku res \<noteq> PNone
         \<and> map (\<lambda>t. length (rows_of (db R') t))
               [''laptop_models'', ''laptop_hardware_data'', ''laptop_variants'', ''laptops'',
                ''laptop_manual_fields'']
             = [2, 2, 2, 2, 2])"
proof -
  have same: "get other_model_raw ''brand'' = get sample_raw ''brand''
     \<and> get other_model_raw ''cpu_model'' = get sample_raw ''cpu_model''
     \<and> get other_model_raw ''screen_size_inches'' = get sample_raw ''screen_size_inches''
     \<and> extract_integrated_gpu other_model_raw = extract_integrated_gpu sample_raw
     \<and> extract_dedicated_gpu other_model_raw = extract_dedicated_gpu sample_raw"
    by code_simp
  have before: "rows_of (db uploaded_once) ''laptop_models'' = [sample_model_row]
     \<and> map (\<lambda>r. (get r ''model_id'', get r ''brand'')) (rows_of (db uploaded_once) ''laptop_hardware_data'')
        = [(PInt 1, get other_model_raw ''brand'')]"
    by code_simp
  have "case upload_to_database no_fail_srv other_model_raw sample_bestbuy uploaded_once of
          (Inl e, R') \<Rightarrow> False
        | (Inr res, R') \<Rightarrow>
            status res = ''created'' \<and> status res \<noteq> ''exists''
            \<and> variant_id res \<noteq> PNone \<and> shop_sku res \<noteq> PNone
            \<and> map (\<lambda>t. length (rows_of (db R') t))
                  [''laptop_models'', ''laptop_hardware_data'', ''laptop_variants'', ''laptops'',
                   ''laptop_manual_fields'']
                = [2, 2, 2, 2, 2]"
    by code_simp
  then have "\<exists>res R'. upload_to_database no_fail_srv other_model_raw sample_bestbuy uploaded_once = (Inr res, R')
         \<and> status res = ''created'' \<and> status res \<noteq> ''exists''
         \<and> variant_id res \<noteq> PNone \<and> shop_sku res \<noteq> PNone
         \<and> map (\<lambda>t. length (rows_of (db R') t))
               [''laptop_models'', ''laptop_hardware_data'', ''laptop_variants'', ''laptops'',
                ''laptop_manual_fields'']
             = [2, 2, 2, 2, 2]"
    by (auto split: prod.splits sum.splits)
  with same before show ?thesis
    by (simp only: simp_thms)
qed

text \<open>
  Claim C1, amended. If the model table already holds a row with identical key fields
  (the model name, which is the column \<^verbatim>\<open>base_model_name\<close> filled from the raw field
  \<^verbatim>\<open>model\<close>, the CPU, the screen size and the touchscreen flag, none of these four null,
  and the GPU pair, null matching null on the two GPU columns), and the query for it does
  not fail, \<^verbatim>\<open>upload_to_database\<close> returns the status "exists" with the id of such a
  row and with \<^verbatim>\<open>variant_id\<close> and \<^verbatim>\<open>shop_sku\<close> set to \<^verbatim>\<open>None\<close>; the only
  request it issues is the select on the model table, and every table of the store is as it
  was.
\<close>

theorem existing_model_short_circuit:
  assumes ig: "extract_integrated_gpu raw = Inr integrated_gpu"
    and dg: "extract_dedicated_gpu raw = Inr dedicated_gpu"
    and md: "md = model_data raw bestbuy integrated_gpu dedicated_gpu"
    and row: "row \<in> set (rows_of (db R) ''laptop_models'')"
    and key: "same_model_key md row"
    and ids: "\<forall>r \<in> set (rows_of (db R) ''laptop_models''). has_key r ''id''"
    and ok: "\<not> fails S (length (calls R))"
  shows "\<exists>res R'. upload_to_database S raw bestbuy R = (Inr res, R')
           \<and> status res = ''exists'' \<and> variant_id res = PNone \<and> shop_sku res = PNone
           \<and> (\<exists>r \<in> set (rows_of (db R) ''laptop_models'').
                  same_model_key md r \<and> model_id res = get r ''id'')
           \<and> db R' = db R
           \<and> calls R' = calls R @ [Select ''laptop_models'' [''id''] (model_filters md)]"
proof -
  from first_col_select [OF row same_key_sat [OF key] ids]
  obtain r0 where r0: "r0 \<in> set (rows_of (db R) ''laptop_models'')"
    and s0: "list_all (\<lambda>f. sat f r0) (model_filters md)"
    and ne: "select_rows [''id''] (model_filters md) (rows_of (db R) ''laptop_models'') \<noteq> []"
    and fc: "first_col (select_rows [''id''] (model_filters md) (rows_of (db R) ''laptop_models'')) ''id''
               = Inr (get r0 ''id'')"
    by blast
  have "upload_to_database S raw bestbuy R =
          (Inr (exists_result (get r0 ''id'')),
           \<lparr>db = db R, calls = calls R @ [Select ''laptop_models'' [''id''] (model_filters md)]\<rparr>)"
    using ig dg ok ne fc
    by (simp add: upload_to_database_def upload_prog_def has_dedicated_gpu_def model_step_def
          md [symmetric] model_query_def remote_call_def Let_def)
  moreover have "same_model_key md r0"
    by (rule sat_same_key [OF s0])
  ultimately show ?thesis
    using r0 by (auto simp: exists_result_def)
qed

theorem existing_model_short_circuit_witness:
  "fst (upload_to_database no_fail_srv sample_raw sample_bestbuy empty_remote)
     = Inr (created_result (PInt 1) (PInt 3) (PStr ''SKU-3''))
   \<and> rows_of (db uploaded_once) ''laptop_models'' = [sample_model_row]
   \<and> (\<exists>res R'. upload_to_database no_fail_srv sample_raw sample_bestbuy uploaded_once = (Inr res, R')
         \<and> status res = ''exists'' \<and> variant_id res = PNone \<and> shop_sku res = PNone
         \<and> model_id res = PInt 1
         \<and> db R' = db uploaded_once
         \<and> length (calls R') = Suc (length (calls uploaded_once)))"
proof -
  let ?ig = "PStr ''Intel Corporation UHD Graphics 620''"
  let ?md = "model_data sample_raw sample_bestbuy ?ig PNone"
  have first: "fst (upload_to_database no_fail_srv sample_raw sample_bestbuy empty_remote)
     = Inr (created_result (PInt 1) (PInt 3) (PStr ''SKU-3''))"
    by code_simp
  have rows: "rows_of (db uploaded_once) ''laptop_models'' = [sample_model_row]"
    by code_simp
  have ig: "extract_integrated_gpu sample_raw = Inr ?ig"
    by code_simp
  have dg: "extract_dedicated_gpu sample_raw = Inr PNone"
    by code_simp
  have row: "sample_model_row \<in> set (rows_of (db uploaded_once) ''laptop_models'')"
    by (simp add: rows)
  have key: "same_model_key ?md sample_model_row"
    by code_simp
  have ids: "\<forall>r \<in> set (rows_of (db uploaded_once) ''laptop_models''). has_key r ''id''"
    by (simp add: rows sample_model_row_def has_key_def)
  have ok: "\<not> fails no_fail_srv (length (calls uploaded_once))"
    by (simp add: no_fail_srv_def)
  from existing_model_short_circuit [OF ig dg refl row key ids ok]
  obtain res R' where
    "upload_to_database no_fail_srv sample_raw sample_bestbuy uploaded_once = (Inr res, R')"
    "status res = ''exists''" "variant_id res = PNone" "shop_sku res = PNone"
    "\<exists>r \<in> set (rows_of (db uploaded_once) ''laptop_models''). model_id res = get r ''id''"
    "db R' = db uploaded_once"
    "calls R' = calls uploaded_once @ [Select ''laptop_models'' [''id''] (model_filters ?md)]"
    by blast
  moreover from this(5) have "model_id res = PInt 1"
    by (simp add: rows sample_model_row_def get_def get_or_def)
  ultimately show ?thesis
    using first rows by auto
qed

section \<open>The uploader: a request that fails\<close>

lemma exec_call_fails: "exec_call (S\<lparr>fails := f\<rparr>) c D = exec_call S c D"
  by (cases c) (simp_all add: insert_row_def upsert_row_def stored_def Let_def)

lemma remote_call_ok:
  "\<not> fails S (length (calls R)) \<Longrightarrow>
   remote_call S c R = (Inr (fst (exec_call S c (db R))), \<lparr>db = snd (exec_call S c (db R)), calls = calls R @ [c]\<rparr>)"
  by (simp add: remote_call_def split: prod.splits)

lemma remote_call_fails:
  "fails S (length (calls R)) \<Longrightarrow> remote_call S c R = (Inl APIError, R\<lparr>calls := calls R @ [c]\<rparr>)"
  by (simp add: remote_call_def)

lemma run_calls_extend: "run S p R = (res, R') \<Longrightarrow> \<exists>cs. calls R' = calls R @ cs"
proof (induction p arbitrary: R)
  case (Return x)
  then show ?case by simp
next
  case (Raise e)
  then show ?case by simp
next
  case (Call c k)
  show ?case
  proof (cases "fails S (length (calls R))")
    case True
    with Call.prems show ?thesis by (auto simp: remote_call_fails)
  next
    case False
    let ?R2 = "\<lparr>db = snd (exec_call S c (db R)), calls = calls R @ [c]\<rparr>"
    from False Call.prems have "run S (k (fst (exec_call S c (db R)))) ?R2 = (res, R')"
      by (simp add: remote_call_ok)
    from Call.IH [OF _ this] obtain cs where "calls R' = calls ?R2 @ cs"
      by blast
    then show ?thesis by simp
  qed
qed

lemma replay_Cons: "replay S (c # cs) D = replay S cs (snd (exec_call S c D))"
  by (simp add: replay_def)

text \<open>
  The run of a request tree on a service whose \<open>i\<close>-th request is the first to fail,
  against its run on the same service without failures: the tree stops with the error of
  the failing request, it has issued the requests of the failure-free run up to that one,
  and the store is the outcome of the requests before it.
\<close>

lemma run_first_failure:
  assumes f: "fails S i" and before: "\<forall>j<i. \<not> fails S j"
  shows "length (calls R0) \<le> i \<Longrightarrow> run (S\<lparr>fails := (\<lambda>j. False)\<rparr>) p R0 = (res, R1) \<Longrightarrow>
         i < length (calls R1) \<Longrightarrow>
         \<exists>R'. run S p R0 = (Inl APIError, R') \<and> calls R' = take (Suc i) (calls R1)
              \<and> db R' = replay S (drop (length (calls R0)) (take i (calls R1))) (db R0)"
proof (induction p arbitrary: R0)
  case (Return x)
  then show ?case by simp
next
  case (Raise e)
  then show ?case by simp
next
  case (Call c k)
  let ?S0 = "S\<lparr>fails := (\<lambda>j. False)\<rparr>"
  let ?rows = "fst (exec_call S c (db R0))"
  let ?R2 = "\<lparr>db = snd (exec_call S c (db R0)), calls = calls R0 @ [c]\<rparr>"
  have ok: "run ?S0 (k ?rows) ?R2 = (res, R1)"
    using Call.prems(2) by (simp add: remote_call_ok exec_call_fails)
  from run_calls_extend [OF ok] obtain cs where cs: "calls R1 = calls R0 @ c # cs"
    by auto
  show ?case
  proof (cases "i = length (calls R0)")
    case True
    with f have "run S (Call c k) R0 = (Inl APIError, R0\<lparr>calls := calls R0 @ [c]\<rparr>)"
      by (simp add: remote_call_fails)
    moreover have "take (Suc i) (calls R1) = calls R0 @ [c]"
      using True cs by simp
    moreover have "replay S (drop (length (calls R0)) (take i (calls R1))) (db R0) = db R0"
      using True cs by (simp add: replay_def)
    ultimately show ?thesis by simp
  next
    case False
    with Call.prems(1) have lt: "length (calls R0) < i" by simp
    with before have "\<not> fails S (length (calls R0))" by simp
    then have step: "run S (Call c k) R0 = run S (k ?rows) ?R2"
      by (simp add: remote_call_ok)
    from lt have le: "length (calls ?R2) \<le> i" by simp
    from Call.IH [OF _ le ok Call.prems(3)]
    obtain R' where R': "run S (k ?rows) ?R2 = (Inl APIError, R')"
      "calls R' = take (Suc i) (calls R1)"
      "db R' = replay S (drop (length (calls ?R2)) (take i (calls R1))) (db ?R2)"
      by blast
    have "drop (length (calls R0)) (take i (calls R1))
            = c # drop (length (calls ?R2)) (take i (calls R1))"
      using lt cs by (simp add: Suc_diff_Suc drop_Cons' take_Cons')
    then have "replay S (drop (length (calls R0)) (take i (calls R1))) (db R0)
                 = replay S (drop (length (calls ?R2)) (take i (calls R1))) (db ?R2)"
      by (simp add: replay_Cons)
    with R' step show ?thesis by simp
  qed
qed

text \<open>
  Claim C5. Every step of \<^verbatim>\<open>upload_to_database\<close> is a request to the service or a pair
  of them (the model select and insert, the hardware-detail upsert, the variant select and
  insert, the inventory upsert, the manual-fields upsert). Let the \<open>i\<close>-th request issued
  to the service be the first that fails, and let it be one of the requests the upload
  would issue on the same service without failures. Then \<^verbatim>\<open>upload_to_database\<close> ends
  with the error of that request; the requests it has issued are those of the failure-free
  run up to the failing one included, so that nothing follows it and it is not repeated;
  and the store is the outcome of the requests before it, none of them undone. Whatever
  error \<^verbatim>\<open>upload_to_database\<close> ends with, \<^verbatim>\<open>main\<close> then writes the two local JSON
  files and leaves the store as the upload left it.
\<close>

theorem upload_aborts_at_first_failure:
  "(fails S i \<and> (\<forall>j<i. \<not> fails S j) \<and> length (calls R) \<le> i
      \<and> upload_to_database (S\<lparr>fails := (\<lambda>j. False)\<rparr>) raw bestbuy R = (res, R1)
      \<and> i < length (calls R1) \<longrightarrow>
    (\<exists>R'. upload_to_database S raw bestbuy R = (Inl APIError, R')
        \<and> calls R' = take (Suc i) (calls R1)
        \<and> db R' = replay S (drop (length (calls R)) (take i (calls R1))) (db R)))
   \<and> (\<forall>D secrets_val e R'.
        detect_and_prompt L E = Inr D \<and> upload A \<and> supabase_installed E
        \<and> load_secrets E (secrets A) = Inr secrets_val
        \<and> create_supabase_client S secrets_val = Inr ()
        \<and> upload_to_database S (raw_data D) (bestbuy_data D) (service W) = (Inl e, R') \<longrightarrow>
        (\<exists>W'. main L E S A W = Inr W' \<and> service W' = R'
           \<and> local_files W' = save_results E D default_output_file (local_files W)
           \<and> map_of (local_files W') ''laptop_hardware_data.json''
                = Some (Full_dump (clock E) (raw_data D) (bestbuy_data D))
           \<and> map_of (local_files W') ''laptop_hardware_data_bestbuy_only.json''
                = Some (Fields_only (bestbuy_data D))))"
proof (intro conjI allI impI)
  assume a: "fails S i \<and> (\<forall>j<i. \<not> fails S j) \<and> length (calls R) \<le> i
      \<and> upload_to_database (S\<lparr>fails := (\<lambda>j. False)\<rparr>) raw bestbuy R = (res, R1)
      \<and> i < length (calls R1)"
  then have f: "fails S i" and b: "\<forall>j<i. \<not> fails S j" and le: "length (calls R) \<le> i"
    and plan: "run (S\<lparr>fails := (\<lambda>j. False)\<rparr>) (upload_prog raw bestbuy) R = (res, R1)"
    and lt: "i < length (calls R1)"
    by (simp_all add: upload_to_database_def)
  from run_first_failure [OF f b le plan lt]
  show "\<exists>R'. upload_to_database S raw bestbuy R = (Inl APIError, R')
        \<and> calls R' = take (Suc i) (calls R1)
        \<and> db R' = replay S (drop (length (calls R)) (take i (calls R1))) (db R)"
    by (simp add: upload_to_database_def)
next
  fix D secrets_val e R'
  assume "detect_and_prompt L E = Inr D \<and> upload A \<and> supabase_installed E
        \<and> load_secrets E (secrets A) = Inr secrets_val
        \<and> create_supabase_client S secrets_val = Inr ()
        \<and> upload_to_database S (raw_data D) (bestbuy_data D) (service W) = (Inl e, R')"
  then show "\<exists>W'. main L E S A W = Inr W' \<and> service W' = R'
           \<and> local_files W' = save_results E D default_output_file (local_files W)
           \<and> map_of (local_files W') ''laptop_hardware_data.json''
                = Some (Full_dump (clock E) (raw_data D) (bestbuy_data D))
           \<and> map_of (local_files W') ''laptop_hardware_data_bestbuy_only.json''
                = Some (Fields_only (bestbuy_data D))"
    by (simp add: main_def persist_def upload_session_def handle_error_saves saved_files)
qed

theorem upload_aborts_at_first_failure_witness:
  "map call_table (calls uploaded_once)
     = [''laptop_models'', ''laptop_models'', ''laptop_hardware_data'', ''laptop_variants'',
        ''laptop_variants'', ''laptops'', ''laptop_manual_fields'']
   \<and> (\<exists>R'. upload_to_database third_fails_srv sample_raw sample_bestbuy empty_remote = (Inl APIError, R')
         \<and> calls R' = take 3 (calls uploaded_once)
         \<and> rows_of (db R') ''laptop_models'' = [sample_model_row]
         \<and> rows_of (db R') ''laptop_hardware_data'' = []
         \<and> rows_of (db R') ''laptop_variants'' = [])
   \<and> (\<exists>D e R' W'. detect_and_prompt sample_lib full_secrets_env = Inr D
         \<and> upload_to_database third_fails_srv (raw_data D) (bestbuy_data D) (service empty_world) = (Inl e, R')
         \<and> main sample_lib full_secrets_env third_fails_srv upload_args empty_world = Inr W'
         \<and> service W' = R'
         \<and> map_of (local_files W') ''laptop_hardware_data.json''
              = Some (Full_dump (clock full_secrets_env) (raw_data D) (bestbuy_data D))
         \<and> map_of (local_files W') ''laptop_hardware_data_bestbuy_only.json''
              = Some (Fields_only (bestbuy_data D)))"
proof -
  let ?secrets = "PDict [(''supabase_url'', PStr ''https://db.example''), (''supabase_anon_key'', PStr ''key'')]"
  note first = upload_aborts_at_first_failure
    [where S = third_fails_srv and i = 2 and R = empty_remote and raw = sample_raw
       and bestbuy = sample_bestbuy and res = "fst (upload_to_database no_fail_srv sample_raw sample_bestbuy empty_remote)"
       and ?R1.0 = uploaded_once, THEN conjunct1]
  note fallback = upload_aborts_at_first_failure
    [where S = third_fails_srv and L = sample_lib and E = full_secrets_env and A = upload_args
       and W = empty_world, THEN conjunct2]
  have tables: "map call_table (calls uploaded_once)
     = [''laptop_models'', ''laptop_models'', ''laptop_hardware_data'', ''laptop_variants'',
        ''laptop_variants'', ''laptops'', ''laptop_manual_fields'']"
    by code_simp
  have srv: "third_fails_srv\<lparr>fails := (\<lambda>j. False)\<rparr> = no_fail_srv"
    by (simp add: third_fails_srv_def no_fail_srv_def)
  have plan: "upload_to_database (third_fails_srv\<lparr>fails := (\<lambda>j. False)\<rparr>) sample_raw sample_bestbuy empty_remote
     = (fst (upload_to_database no_fail_srv sample_raw sample_bestbuy empty_remote), uploaded_once)"
    by (simp add: srv uploaded_once_def)
  have hyp: "fails third_fails_srv 2 \<and> (\<forall>j<2. \<not> fails third_fails_srv j)
     \<and> length (calls empty_remote) \<le> 2 \<and> 2 < length (calls uploaded_once)"
  proof -
    have "length (calls uploaded_once) = 7"
      using arg_cong [OF tables, of length] by simp
    then show ?thesis
      by (simp add: third_fails_srv_def empty_remote_def)
  qed
  from first hyp plan obtain R' where R':
    "upload_to_database third_fails_srv sample_raw sample_bestbuy empty_remote = (Inl APIError, R')"
    "calls R' = take (Suc 2) (calls uploaded_once)"
    "db R' = replay third_fails_srv (drop (length (calls empty_remote)) (take 2 (calls uploaded_once))) (db empty_remote)"
    by blast
  have store: "rows_of (replay third_fails_srv (drop (length (calls empty_remote)) (take 2 (calls uploaded_once))) (db empty_remote)) ''laptop_models'' = [sample_model_row]
      \<and> rows_of (replay third_fails_srv (drop (length (calls empty_remote)) (take 2 (calls uploaded_once))) (db empty_remote)) ''laptop_hardware_data'' = []
      \<and> rows_of (replay third_fails_srv (drop (length (calls empty_remote)) (take 2 (calls uploaded_once))) (db empty_remote)) ''laptop_variants'' = []"
    by code_simp
  have part1: "\<exists>R'. upload_to_database third_fails_srv sample_raw sample_bestbuy empty_remote = (Inl APIError, R')
         \<and> calls R' = take 3 (calls uploaded_once)
         \<and> rows_of (db R') ''laptop_models'' = [sample_model_row]
         \<and> rows_of (db R') ''laptop_hardware_data'' = []
         \<and> rows_of (db R') ''laptop_variants'' = []"
    using R' store by (auto simp: numeral_3_eq_3)
  obtain D where D: "detect_and_prompt sample_lib full_secrets_env = Inr D"
  proof -
    have "case detect_and_prompt sample_lib full_secrets_env of Inl e \<Rightarrow> False | Inr D \<Rightarrow> True"
      by code_simp
    then show ?thesis using that by (auto split: sum.splits)
  qed
  obtain e R2 where up: "upload_to_database third_fails_srv (raw_data D) (bestbuy_data D) (service empty_world) = (Inl e, R2)"
  proof -
    have "case detect_and_prompt sample_lib full_secrets_env of
            Inl e \<Rightarrow> True
          | Inr D \<Rightarrow> (case upload_to_database third_fails_srv (raw_data D) (bestbuy_data D) (service empty_world) of
                        (Inl e, R2) \<Rightarrow> True
                      | (Inr r, R2) \<Rightarrow> False)"
      by code_simp
    then show ?thesis using that D by (auto split: sum.splits prod.splits)
  qed
  have u: "upload upload_args" "supabase_installed full_secrets_env"
    by (simp_all add: upload_args_def full_secrets_env_def sample_env_def)
  have ls: "load_secrets full_secrets_env (secrets upload_args) = Inr ?secrets"
    by code_simp
  have cl: "create_supabase_client third_fails_srv ?secrets = Inr ()"
    by code_simp
  from fallback D u ls cl up
  have "\<exists>W'. main sample_lib full_secrets_env third_fails_srv upload_args empty_world = Inr W'
         \<and> service W' = R2
         \<and> map_of (local_files W') ''laptop_hardware_data.json''
              = Some (Full_dump (clock full_secrets_env) (raw_data D) (bestbuy_data D))
         \<and> map_of (local_files W') ''laptop_hardware_data_bestbuy_only.json''
              = Some (Fields_only (bestbuy_data D))"
    by blast
  with D up have part2: "\<exists>D e R' W'. detect_and_prompt sample_lib full_secrets_env = Inr D
         \<and> upload_to_database third_fails_srv (raw_data D) (bestbuy_data D) (service empty_world) = (Inl e, R')
         \<and> main sample_lib full_secrets_env third_fails_srv upload_args empty_world = Inr W'
         \<and> service W' = R'
         \<and> map_of (local_files W') ''laptop_hardware_data.json''
              = Some (Full_dump (clock full_secrets_env) (raw_data D) (bestbuy_data D))
         \<and> map_of (local_files W') ''laptop_hardware_data_bestbuy_only.json''
              = Some (Fields_only (bestbuy_data D))"
    by blast
  from tables part1 part2 show ?thesis
    by (intro conjI)
qed

end
